theory Spec2Isabelle
  imports Main "HOL-Library.Word" "HOL-Library.AList"
begin

unbundle bit_operations_syntax

section \<open>DebMaster main process: job registry, line decoder and event routing\<close>

text \<open>
  A shallow embedding of the backend listeners of \<^verbatim>\<open>src/main.js\<close> (the three
  \<^verbatim>\<open>ipcMain.on\<close> handlers for \<^verbatim>\<open>fetch-github-releases\<close>,
  \<^verbatim>\<open>download-and-compile-deb\<close> and \<^verbatim>\<open>start-patching\<close>, with the listeners
  they attach to each spawned child) and of the identifier selection of the renderer's
  \<^verbatim>\<open>backend-message\<close> listener.

  The module-level table \<^verbatim>\<open>activeProcesses\<close>, the messages handed to
  \<^verbatim>\<open>mainWindow.webContents.send\<close>, the calls of \<^verbatim>\<open>spawn\<close>, the console and the
  files touched by \<^verbatim>\<open>fs.writeFile\<close> and \<^verbatim>\<open>fs.unlink\<close> are fields of one state
  record that every handler takes and returns. What the platform decides (whether a
  launch succeeds, whether a write or an unlink succeeds, the clock, the exit code,
  the chunking of a child's output) is an argument of the handler it reaches.
  The model covers the time in which the main window exists, so that
  \<^verbatim>\<open>mainWindow.webContents.send\<close> does not throw.
\<close>

subsection \<open>Strings and buffers\<close>

text \<open>
  A JavaScript string is a sequence of 16-bit code units; a Node \<^verbatim>\<open>Buffer\<close> is a
  sequence of bytes. \<open>js\<close> writes an ASCII literal of the source as code units.
\<close>

type_synonym jsstring = "16 word list"
type_synonym bytes = "8 word list"

definition js :: "string \<Rightarrow> jsstring" where
  "js s = map of_char s"

definition NL :: "16 word" where
  "NL = 10"

text \<open>
  \<^verbatim>\<open>data.toString()\<close> decodes one chunk as UTF-8, on its own: every maximal ill-formed
  subsequence, and a sequence cut off by the end of the chunk, becomes one U+FFFD.
  The decoder is the platform's; it is written out here as the state machine of the
  Encoding Standard (lead byte, then continuation bytes within bounds that depend on
  the lead byte), followed by the UTF-16 encoding of each code point.
\<close>

datatype utf8_state = Idle | Pending nat nat nat nat

definition utf8_lead :: "nat \<Rightarrow> utf8_state \<times> nat list" where
  "utf8_lead b =
     (if b \<le> 0x7F then (Idle, [b])
      else if 0xC2 \<le> b \<and> b \<le> 0xDF then (Pending 1 (b mod 32) 0x80 0xBF, [])
      else if 0xE0 \<le> b \<and> b \<le> 0xEF then
        (Pending 2 (b mod 16) (if b = 0xE0 then 0xA0 else 0x80)
           (if b = 0xED then 0x9F else 0xBF), [])
      else if 0xF0 \<le> b \<and> b \<le> 0xF4 then
        (Pending 3 (b mod 8) (if b = 0xF0 then 0x90 else 0x80)
           (if b = 0xF4 then 0x8F else 0xBF), [])
      else (Idle, [0xFFFD]))"

fun utf8_step :: "utf8_state \<Rightarrow> nat \<Rightarrow> utf8_state \<times> nat list" where
  "utf8_step Idle b = utf8_lead b"
| "utf8_step (Pending n cp lo hi) b =
     (if lo \<le> b \<and> b \<le> hi then
        (if n = 1 then (Idle, [cp * 64 + b mod 64])
         else (Pending (n - 1) (cp * 64 + b mod 64) 0x80 0xBF, []))
      else (fst (utf8_lead b), 0xFFFD # snd (utf8_lead b)))"

fun utf8_run :: "utf8_state \<Rightarrow> nat list \<Rightarrow> nat list" where
  "utf8_run Idle [] = []"
| "utf8_run (Pending n cp lo hi) [] = [0xFFFD]"
| "utf8_run s (b # bs) = snd (utf8_step s b) @ utf8_run (fst (utf8_step s b)) bs"

definition utf16 :: "nat \<Rightarrow> jsstring" where
  "utf16 cp =
     (if cp < 0x10000 then [of_nat cp]
      else [of_nat (0xD800 + (cp - 0x10000) div 0x400),
            of_nat (0xDC00 + (cp - 0x10000) mod 0x400)])"

definition toString :: "bytes \<Rightarrow> jsstring" where
  "toString data = concat (map utf16 (utf8_run Idle (map unat data)))"

text \<open>
  \<^verbatim>\<open>buffer.indexOf('\n')\<close>: the position of the first newline, \<open>None\<close> for the
  source's \<^verbatim>\<open>-1\<close>. \<^verbatim>\<open>substring(a, b)\<close> clamps to the string and swaps its arguments
  when they come in the wrong order; with one argument it runs to the end.
\<close>

fun indexOf :: "jsstring \<Rightarrow> 16 word \<Rightarrow> nat option" where
  "indexOf [] c = None"
| "indexOf (x # xs) c = (if x = c then Some 0 else map_option Suc (indexOf xs c))"

definition substring :: "jsstring \<Rightarrow> nat \<Rightarrow> nat \<Rightarrow> jsstring" where
  "substring s a b = drop (min a b) (take (max a b) s)"

definition substring_from :: "jsstring \<Rightarrow> nat \<Rightarrow> jsstring" where
  "substring_from s a = drop a s"

text \<open>
  \<^verbatim>\<open>String.prototype.trim\<close> removes white space and line terminators at both ends.
\<close>

definition is_js_space :: "16 word \<Rightarrow> bool" where
  "is_js_space c \<longleftrightarrow>
     c \<in> {0x9, 0xA, 0xB, 0xC, 0xD, 0x20, 0xA0, 0x1680, 0x2028, 0x2029, 0x202F,
          0x205F, 0x3000, 0xFEFF} \<or> (0x2000 \<le> c \<and> c \<le> 0x200A)"

definition trim :: "jsstring \<Rightarrow> jsstring" where
  "trim s = rev (dropWhile is_js_space (rev (dropWhile is_js_space s)))"

subsection \<open>Values\<close>

text \<open>
  The values that \<^verbatim>\<open>JSON.parse\<close> returns and that the handlers build, with
  \<open>Undefined\<close> for what reading a missing property gives. An object is the list of its
  own properties in insertion order, each name once; an array also carries the named
  properties assigned to it. Numbers are carried as integers: the only numbers the
  handlers build are exit codes, and no handler computes with a number it received.
\<close>

datatype jsval =
    Undefined
  | JNull
  | JBool bool
  | JNum int
  | JStr jsstring
  | JArr "jsval list" "(jsstring \<times> jsval) list"
  | JObj "(jsstring \<times> jsval) list"

text \<open>
  Reading a property of \<^verbatim>\<open>null\<close> or \<^verbatim>\<open>undefined\<close> throws a TypeError; reading a
  missing property of anything else gives \<^verbatim>\<open>undefined\<close>. \<open>get_prop\<close> is used at the names
  the source reads (\<^verbatim>\<open>type\<close>, \<^verbatim>\<open>status\<close>, \<^verbatim>\<open>releases\<close>, \<^verbatim>\<open>error\<close>,
  \<^verbatim>\<open>identifier\<close>, \<^verbatim>\<open>download_url\<close>), none of which a built-in prototype defines.
\<close>

fun throws_on_access :: "jsval \<Rightarrow> bool" where
  "throws_on_access Undefined = True"
| "throws_on_access JNull = True"
| "throws_on_access _ = False"

fun get_prop :: "jsval \<Rightarrow> jsstring \<Rightarrow> jsval" where
  "get_prop (JObj ps) k = (case map_of ps k of None \<Rightarrow> Undefined | Some v \<Rightarrow> v)"
| "get_prop (JArr xs ps) k = (case map_of ps k of None \<Rightarrow> Undefined | Some v \<Rightarrow> v)"
| "get_prop _ k = Undefined"

text \<open>
  The assignment \<^verbatim>\<open>v.k = x\<close>: it replaces the property where it stands or appends it,
  does nothing on a boolean, number or string (the module is not in strict mode), and
  \<open>None\<close> stands for the TypeError on \<^verbatim>\<open>null\<close> and \<^verbatim>\<open>undefined\<close>.
\<close>

fun set_prop :: "jsval \<Rightarrow> jsstring \<Rightarrow> jsval \<Rightarrow> jsval option" where
  "set_prop Undefined k x = None"
| "set_prop JNull k x = None"
| "set_prop (JObj ps) k x = Some (JObj (AList.update k x ps))"
| "set_prop (JArr xs ps) k x = Some (JArr xs (AList.update k x ps))"
| "set_prop v k x = Some v"

text \<open>Truthiness, and \<^verbatim>\<open>a || b\<close>.\<close>

fun truthy :: "jsval \<Rightarrow> bool" where
  "truthy Undefined = False"
| "truthy JNull = False"
| "truthy (JBool b) = b"
| "truthy (JNum n) = (n \<noteq> 0)"
| "truthy (JStr s) = (s \<noteq> [])"
| "truthy (JArr xs ps) = True"
| "truthy (JObj ps) = True"

definition js_or :: "jsval \<Rightarrow> jsval \<Rightarrow> jsval" where
  "js_or a b = (if truthy a then a else b)"

subsection \<open>The state of the main process\<close>

text \<open>
  Each of the three handlers builds its registry key with a template literal:
  \<^verbatim>\<open>`fetch:${repoUrl}`\<close>, \<^verbatim>\<open>`download:${downloadUrl}`\<close>,
  \<^verbatim>\<open>`patch:${identifier}`\<close>. The requester's key is taken to be a string, as the
  renderer sends it.
\<close>

datatype kind = Fetch | DownloadConvert | Patch

fun kind_prefix :: "kind \<Rightarrow> jsstring" where
  "kind_prefix Fetch = js ''fetch:''"
| "kind_prefix DownloadConvert = js ''download:''"
| "kind_prefix Patch = js ''patch:''"

definition processKey :: "kind \<Rightarrow> jsstring \<Rightarrow> jsstring" where
  "processKey k arg = kind_prefix k @ arg"

text \<open>
  What the listeners of one spawned child close over: the handler's argument
  (\<^verbatim>\<open>repoUrl\<close>, \<^verbatim>\<open>downloadUrl\<close>, or \<^verbatim>\<open>identifier\<close> with \<^verbatim>\<open>tempIpaPath\<close>) and the
  \<^verbatim>\<open>buffer\<close> variable of its \<^verbatim>\<open>stdout\<close> listener.
\<close>

datatype job =
    FetchJob jsstring
  | DownloadJob jsstring
  | PatchJob jsstring jsstring

fun job_kind :: "job \<Rightarrow> kind" where
  "job_kind (FetchJob repoUrl) = Fetch"
| "job_kind (DownloadJob downloadUrl) = DownloadConvert"
| "job_kind (PatchJob identifier tempIpaPath) = Patch"

fun job_arg :: "job \<Rightarrow> jsstring" where
  "job_arg (FetchJob repoUrl) = repoUrl"
| "job_arg (DownloadJob downloadUrl) = downloadUrl"
| "job_arg (PatchJob identifier tempIpaPath) = identifier"

record child =
  ch_job :: job
  ch_buffer :: jsstring

text \<open>The channels of \<^verbatim>\<open>mainWindow.webContents.send\<close> that the handlers use.\<close>

datatype channel = GithubReleasesData | GithubReleasesError | BackendMessage

text \<open>The lines written to the console, one constructor for each call in the source.\<close>

datatype log_entry =
    WarnAlreadyRunning kind jsstring
  | LogStarting kind jsstring
  | LogStartingPatch jsstring jsstring
  | LogSpawnedPatch "nat option" jsstring
  | LogPatchStdout jsstring jsstring
  | WarnNonJSON kind jsstring
  | ErrStderr kind jsstring jsstring
  | LogExit kind jsstring "int option"
  | ErrInvalidPatchData bool "jsstring option"
  | ErrWriteTemp
  | ErrUnlink jsstring
  | LogUnlinked jsstring

text \<open>
  The payload of \<^verbatim>\<open>start-patching\<close>. \<^verbatim>\<open>ipaBuffer\<close> is an ArrayBuffer or missing;
  \<^verbatim>\<open>tweakPath\<close> and \<^verbatim>\<open>ipaName\<close> are strings or missing.
\<close>

record patch_request =
  req_ipaBuffer :: "bytes option"
  req_tweakPath :: "jsstring option"
  req_identifier :: jsstring
  req_ipaName :: "jsstring option"

text \<open>A call of \<^verbatim>\<open>fs.writeFile\<close> whose callback has not run yet, with what the callback closes over.\<close>

record pending_write =
  pw_path :: jsstring
  pw_data :: bytes
  pw_tweakPath :: jsstring
  pw_identifier :: jsstring

text \<open>
  \<open>activeProcesses\<close> is the module's \<^verbatim>\<open>Map\<close>; a child process object is named by its
  position in \<open>children\<close>. \<open>spawned\<close> lists the calls of \<^verbatim>\<open>spawn\<close> (command,
  arguments, and the pid the platform gave, \<open>None\<close> when the launch failed), \<open>sent\<close>
  the calls of \<^verbatim>\<open>mainWindow.webContents.send\<close>, \<open>deleted\<close> the calls of
  \<^verbatim>\<open>activeProcesses.delete\<close> and \<open>unlinked\<close> the calls of \<^verbatim>\<open>fs.unlink\<close>, each in
  program order. \<open>files\<close> is the file system. \<open>uncaught\<close> lists the children whose
  \<^verbatim>\<open>'error'\<close> event found no listener and was thrown as an uncaught exception in the
  main process.
\<close>

record main_state =
  activeProcesses :: "jsstring \<rightharpoonup> nat"
  children :: "child list"
  spawned :: "(jsstring \<times> jsstring list \<times> nat option) list"
  pendingWrites :: "pending_write option list"
  sent :: "(channel \<times> jsval) list"
  console :: "log_entry list"
  files :: "jsstring \<rightharpoonup> bytes"
  deleted :: "jsstring list"
  unlinked :: "jsstring list"
  uncaught :: "nat list"

definition init_state :: "main_state" where
  "init_state = \<lparr>activeProcesses = Map.empty, children = [], spawned = [],
     pendingWrites = [], sent = [], console = [], files = Map.empty, deleted = [],
     unlinked = [], uncaught = []\<rparr>"

text \<open>
  The platform functions the handlers call and the module constants they read.
  \<open>JSON_parse\<close> returns \<open>None\<close> where \<^verbatim>\<open>JSON.parse\<close> throws.
\<close>

record platform =
  JSON_parse :: "jsstring \<Rightarrow> jsval option"
  path_join :: "jsstring list \<Rightarrow> jsstring"
  dirname :: jsstring
  os_tmpdir :: jsstring

text \<open>The decimal digits of \<^verbatim>\<open>Date.now()\<close> inside a template literal.\<close>

fun decimal :: "nat \<Rightarrow> jsstring" where
  "decimal n = (if n < 10 then [of_nat (48 + n)] else decimal (n div 10) @ [of_nat (48 + n mod 10)])"

declare decimal.simps [simp del]

definition log :: "log_entry \<Rightarrow> main_state \<Rightarrow> main_state" where
  "log e st = st\<lparr>console := console st @ [e]\<rparr>"

definition send :: "channel \<Rightarrow> jsval \<Rightarrow> main_state \<Rightarrow> main_state" where
  "send ch payload st = st\<lparr>sent := sent st @ [(ch, payload)]\<rparr>"

text \<open>
  \<^verbatim>\<open>const pythonProcess = spawn('python', args); activeProcesses.set(processKey,
  pythonProcess); let buffer = ''\<close> and the three listeners: the same statements in every
  handler. \<^verbatim>\<open>spawn\<close> returns a child process object whether or not the program could
  be launched, and the handlers do not look at the outcome.
\<close>

definition spawn_and_register ::
  "jsstring list \<Rightarrow> nat option \<Rightarrow> jsstring \<Rightarrow> job \<Rightarrow> main_state \<Rightarrow> main_state" where
  "spawn_and_register args pid key j st =
     st\<lparr>spawned := spawned st @ [(js ''python'', args, pid)],
        activeProcesses := (activeProcesses st)(key \<mapsto> length (children st)),
        children := children st @ [\<lparr>ch_job = j, ch_buffer = []\<rparr>]\<rparr>"

subsection \<open>The line loop of the stdout listeners\<close>

text \<open>
  \<^verbatim>\<open>
  let boundary = buffer.indexOf('\n');
  while (boundary !== -1) {
      const line = buffer.substring(0, boundary);
      buffer = buffer.substring(boundary + 1);
      if (line) { try { ... } catch (e) { console.warn(...) } }
      boundary = buffer.indexOf('\n');
  }
  \<close>
  The loop is the same in the three listeners; \<open>on_line\<close> is the \<^verbatim>\<open>try\<close> statement.
  It returns the buffer that is left and the state.
\<close>

function process_lines ::
  "(jsstring \<Rightarrow> 's \<Rightarrow> 's) \<Rightarrow> jsstring \<Rightarrow> 's \<Rightarrow> jsstring \<times> 's" where
  "process_lines on_line buffer st =
     (case indexOf buffer NL of
        None \<Rightarrow> (buffer, st)
      | Some boundary \<Rightarrow>
          process_lines on_line (substring_from buffer (boundary + 1))
            (if substring buffer 0 boundary \<noteq> []
             then on_line (substring buffer 0 boundary) st else st))"
  by pat_completeness auto
termination
proof (relation "measure (\<lambda>(f, b, s). length b)")
  show "wf (measure (\<lambda>(f :: jsstring \<Rightarrow> 's \<Rightarrow> 's, b :: jsstring, s :: 's). length b))"
    by simp
next
  fix on_line :: "jsstring \<Rightarrow> 's \<Rightarrow> 's" and buffer :: jsstring and st :: 's and boundary
  assume found: "indexOf buffer NL = Some boundary"
  have "indexOf s c = Some i \<Longrightarrow> i < length s" for s c i
    by (induction s arbitrary: i) (auto split: if_splits)
  from this [OF found]
  show "((on_line, substring_from buffer (boundary + 1),
          if substring buffer 0 boundary \<noteq> [] then on_line (substring buffer 0 boundary) st
          else st),
         on_line, buffer, st) \<in> measure (\<lambda>(f, b, s). length b)"
    by (simp add: substring_from_def)
qed

declare process_lines.simps [simp del]

text \<open>
  The \<^verbatim>\<open>try\<close> statement of each listener either reaches its
  \<^verbatim>\<open>mainWindow.webContents.send\<close>, or throws and ends in the \<^verbatim>\<open>catch\<close> with its
  \<^verbatim>\<open>console.warn\<close>, or (in the fetch listener) completes without sending.
\<close>

datatype outcome = Sends channel jsval | Throws | Quiet

text \<open>
  The fetch listener. Reading \<^verbatim>\<open>jsonData.type\<close> of \<^verbatim>\<open>null\<close> throws inside the
  \<^verbatim>\<open>try\<close>.
\<close>

definition fetch_try :: "platform \<Rightarrow> jsstring \<Rightarrow> outcome" where
  "fetch_try env line =
     (case JSON_parse env line of
        None \<Rightarrow> Throws
      | Some jsonData \<Rightarrow>
          if throws_on_access jsonData then Throws
          else if get_prop jsonData (js ''type'') = JStr (js ''github_releases'')
                  \<and> get_prop jsonData (js ''status'') = JStr (js ''completed'')
          then Sends GithubReleasesData (get_prop jsonData (js ''releases''))
          else if get_prop jsonData (js ''type'') = JStr (js ''github'')
                  \<and> get_prop jsonData (js ''status'') = JStr (js ''failed'')
          then Sends GithubReleasesError (get_prop jsonData (js ''error''))
          else Quiet)"

definition download_try :: "platform \<Rightarrow> jsstring \<Rightarrow> outcome" where
  "download_try env line =
     (case JSON_parse env line of
        None \<Rightarrow> Throws
      | Some jsonData \<Rightarrow> Sends BackendMessage jsonData)"

text \<open>
  The patch listener: \<^verbatim>\<open>jsonData.identifier = identifier\<close> comes before the send,
  inside the \<^verbatim>\<open>try\<close>.
\<close>

definition patch_try :: "platform \<Rightarrow> jsstring \<Rightarrow> jsstring \<Rightarrow> outcome" where
  "patch_try env ident line =
     (case JSON_parse env line of
        None \<Rightarrow> Throws
      | Some jsonData \<Rightarrow>
          (case set_prop jsonData (js ''identifier'') (JStr ident) of
             None \<Rightarrow> Throws
           | Some jsonData' \<Rightarrow> Sends BackendMessage jsonData'))"

fun try_line :: "platform \<Rightarrow> job \<Rightarrow> jsstring \<Rightarrow> outcome" where
  "try_line env (FetchJob repoUrl) line = fetch_try env line"
| "try_line env (DownloadJob downloadUrl) line = download_try env line"
| "try_line env (PatchJob ident tempIpaPath) line = patch_try env ident line"

definition on_line :: "platform \<Rightarrow> job \<Rightarrow> jsstring \<Rightarrow> main_state \<Rightarrow> main_state" where
  "on_line env j line st =
     (case try_line env j line of
        Sends ch payload \<Rightarrow> send ch payload st
      | Throws \<Rightarrow> log (WarnNonJSON (job_kind j) line) st
      | Quiet \<Rightarrow> st)"

text \<open>
  \<^verbatim>\<open>pythonProcess.stdout.on('data', ...)\<close> of child \<open>h\<close>: the chunk is decoded and
  appended to the listener's buffer, then the loop runs. The patch listener first logs
  the chunk.
\<close>

fun log_chunk :: "job \<Rightarrow> bytes \<Rightarrow> main_state \<Rightarrow> main_state" where
  "log_chunk (PatchJob ident tempIpaPath) data st =
     log (LogPatchStdout ident (trim (toString data))) st"
| "log_chunk j data st = st"

definition stdout_data :: "platform \<Rightarrow> nat \<Rightarrow> bytes \<Rightarrow> main_state \<Rightarrow> main_state" where
  "stdout_data env h data st =
     (if h < length (children st) then
        (let c = children st ! h;
             r = process_lines (on_line env (ch_job c)) (ch_buffer c @ toString data)
                   (log_chunk (ch_job c) data st)
         in (snd r)\<lparr>children := (children (snd r))[h := c\<lparr>ch_buffer := fst r\<rparr>]\<rparr>)
      else st)"

definition stderr_data :: "nat \<Rightarrow> bytes \<Rightarrow> main_state \<Rightarrow> main_state" where
  "stderr_data h data st =
     (if h < length (children st) then
        log (ErrStderr (job_kind (ch_job (children st ! h)))
               (job_arg (ch_job (children st ! h))) (trim (toString data))) st
      else st)"

subsection \<open>The close listeners\<close>

text \<open>
  \<^verbatim>\<open>code\<close> is the exit code, or \<^verbatim>\<open>null\<close> (\<open>None\<close>) when a signal ended the child;
  \<^verbatim>\<open>code === 0 ? 'completed' : 'failed'\<close>.
\<close>

definition exit_status :: "int option \<Rightarrow> jsval" where
  "exit_status code = (if code = Some 0 then JStr (js ''completed'') else JStr (js ''failed''))"

definition code_val :: "int option \<Rightarrow> jsval" where
  "code_val code = (case code of None \<Rightarrow> JNull | Some c \<Rightarrow> JNum c)"

definition registry_delete :: "jsstring \<Rightarrow> main_state \<Rightarrow> main_state" where
  "registry_delete key st =
     st\<lparr>activeProcesses := (activeProcesses st)(key := None), deleted := deleted st @ [key]\<rparr>"

text \<open>
  \<^verbatim>\<open>fs.unlink(tempIpaPath, callback)\<close>: the file goes when the platform can remove it
  (\<open>unlink_ok\<close>) and it exists; the callback only writes to the console.
\<close>

definition unlink :: "jsstring \<Rightarrow> bool \<Rightarrow> main_state \<Rightarrow> main_state" where
  "unlink path unlink_ok st =
     (if unlink_ok \<and> files st path \<noteq> None
      then log (LogUnlinked path) (st\<lparr>files := (files st)(path := None), unlinked := unlinked st @ [path]\<rparr>)
      else log (ErrUnlink path) (st\<lparr>unlinked := unlinked st @ [path]\<rparr>))"

definition process_exit_message :: "jsstring \<Rightarrow> jsstring \<Rightarrow> int option \<Rightarrow> jsval" where
  "process_exit_message field arg code =
     JObj [(js ''type'', JStr (js ''process_exit'')),
           (js ''status'', exit_status code),
           (field, JStr arg),
           (js ''code'', code_val code)]"

fun close_job :: "job \<Rightarrow> int option \<Rightarrow> bool \<Rightarrow> main_state \<Rightarrow> main_state" where
  "close_job (FetchJob repoUrl) code unlink_ok st =
     registry_delete (processKey Fetch repoUrl) (log (LogExit Fetch repoUrl code) st)"
| "close_job (DownloadJob downloadUrl) code unlink_ok st =
     send BackendMessage (process_exit_message (js ''download_url'') downloadUrl code)
       (registry_delete (processKey DownloadConvert downloadUrl)
          (log (LogExit DownloadConvert downloadUrl code) st))"
| "close_job (PatchJob ident tempIpaPath) code unlink_ok st =
     unlink tempIpaPath unlink_ok
       (send BackendMessage (process_exit_message (js ''identifier'') ident code)
          (registry_delete (processKey Patch ident)
             (log (LogExit Patch ident code) st)))"

definition on_close :: "nat \<Rightarrow> int option \<Rightarrow> bool \<Rightarrow> main_state \<Rightarrow> main_state" where
  "on_close h code unlink_ok st =
     (if h < length (children st) then close_job (ch_job (children st ! h)) code unlink_ok st
      else st)"

subsection \<open>The request handlers\<close>

text \<open>
  \<^verbatim>\<open>ipcMain.on('fetch-github-releases', (event, repoUrl) => ...)\<close>. \<open>pid\<close> is what
  the platform makes of the launch.
\<close>

definition fetch_github_releases ::
  "platform \<Rightarrow> jsstring \<Rightarrow> nat option \<Rightarrow> main_state \<Rightarrow> main_state" where
  "fetch_github_releases env repoUrl pid st =
     (if activeProcesses st (processKey Fetch repoUrl) \<noteq> None
      then log (WarnAlreadyRunning Fetch repoUrl) st
      else
        spawn_and_register
          [path_join env [dirname env, js ''backend'', js ''DebMaster.py''],
           js ''--github'', repoUrl, js ''--verbose'']
          pid (processKey Fetch repoUrl) (FetchJob repoUrl)
          (log (LogStarting Fetch repoUrl) st))"

text \<open>\<^verbatim>\<open>ipcMain.on('download-and-compile-deb', (event, downloadUrl) => ...)\<close>\<close>

definition download_and_compile_deb ::
  "platform \<Rightarrow> jsstring \<Rightarrow> nat option \<Rightarrow> main_state \<Rightarrow> main_state" where
  "download_and_compile_deb env downloadUrl pid st =
     (if activeProcesses st (processKey DownloadConvert downloadUrl) \<noteq> None
      then log (WarnAlreadyRunning DownloadConvert downloadUrl) st
      else
        spawn_and_register
          [path_join env [dirname env, js ''backend'', js ''DebMaster.py''],
           js ''--download-url'', downloadUrl, js ''--verbose'']
          pid (processKey DownloadConvert downloadUrl) (DownloadJob downloadUrl)
          (log (LogStarting DownloadConvert downloadUrl) st))"

text \<open>
  \<^verbatim>\<open>ipcMain.on('start-patching', (event, data) => ...)\<close> up to the call of
  \<^verbatim>\<open>fs.writeFile\<close>. \<^verbatim>\<open>!tweakPath\<close> holds for a missing and for an empty string;
  \<^verbatim>\<open>ipaName || `temp_ipa_${Date.now()}.ipa`\<close> (\<open>string_or\<close>) takes the generated
  name in the same two cases. \<open>now\<close> is the clock.
\<close>

definition string_or :: "jsstring option \<Rightarrow> jsstring \<Rightarrow> jsstring" where
  "string_or a b = (case a of None \<Rightarrow> b | Some s \<Rightarrow> if s = [] then b else s)"

definition operation_failed :: "jsstring \<Rightarrow> jsstring \<Rightarrow> jsval" where
  "operation_failed err ident =
     JObj [(js ''type'', JStr (js ''operation'')),
           (js ''status'', JStr (js ''failed'')),
           (js ''error'', JStr err),
           (js ''identifier'', JStr ident)]"

definition invalid_patch_data :: "patch_request \<Rightarrow> main_state \<Rightarrow> main_state" where
  "invalid_patch_data data st =
     send BackendMessage
       (operation_failed (js ''Invalid file data provided.'') (req_identifier data))
       (log (ErrInvalidPatchData (req_ipaBuffer data \<noteq> None) (req_tweakPath data)) st)"

definition start_patching ::
  "platform \<Rightarrow> patch_request \<Rightarrow> nat \<Rightarrow> main_state \<Rightarrow> main_state" where
  "start_patching env data now st =
     (if activeProcesses st (processKey Patch (req_identifier data)) \<noteq> None
      then log (WarnAlreadyRunning Patch (req_identifier data)) st
      else
        (case (req_ipaBuffer data, req_tweakPath data) of
           (Some buf, Some tp) \<Rightarrow>
             if tp = [] then invalid_patch_data data st
             else
               st\<lparr>pendingWrites := pendingWrites st @
                    [Some \<lparr>pw_path =
                             path_join env
                               [os_tmpdir env,
                                string_or (req_ipaName data)
                                  (js ''temp_ipa_'' @ decimal now @ js ''.ipa'')],
                           pw_data = buf,
                           pw_tweakPath = tp,
                           pw_identifier = req_identifier data\<rparr>]\<rparr>
         | _ \<Rightarrow> invalid_patch_data data st))"

text \<open>
  What \<^verbatim>\<open>fs.writeFile\<close> did by the time its callback runs. It opens the path for
  writing (creating or truncating the file) and then writes. \<open>Written\<close>: the file
  holds the bytes. \<open>WriteFailed None\<close>: the open failed and the file system is as it
  was. \<open>WriteFailed (Some bs)\<close>: the open succeeded and the write failed after it (a
  full disk), leaving the file with the bytes \<open>bs\<close> that got through, possibly none.
\<close>

datatype write_result = Written | WriteFailed "bytes option"

fun after_write :: "jsstring \<Rightarrow> bytes \<Rightarrow> write_result \<Rightarrow> (jsstring \<rightharpoonup> bytes) \<Rightarrow> (jsstring \<rightharpoonup> bytes)" where
  "after_write path data Written fs = fs(path \<mapsto> data)"
| "after_write path data (WriteFailed None) fs = fs"
| "after_write path data (WriteFailed (Some bs)) fs = fs(path \<mapsto> bs)"

text \<open>
  The callback of \<^verbatim>\<open>fs.writeFile\<close> for the pending write \<open>i\<close>: with an error it
  reports the failure and returns, leaving at the path whatever the failed write left
  there; otherwise the file is there with the bytes, and the child is spawned and
  registered.
\<close>

definition writeFile_done ::
  "platform \<Rightarrow> pending_write \<Rightarrow> write_result \<Rightarrow> nat option \<Rightarrow> main_state \<Rightarrow> main_state" where
  "writeFile_done env pw res pid st =
     (if res \<noteq> Written then
        send BackendMessage
          (operation_failed (js ''Could not save IPA file for patching.'') (pw_identifier pw))
          (log ErrWriteTemp
             (st\<lparr>files := after_write (pw_path pw) (pw_data pw) res (files st)\<rparr>))
      else
        log (LogSpawnedPatch pid (pw_identifier pw))
          (spawn_and_register
             [path_join env [dirname env, js ''backend'', js ''DebMaster.py''],
              js ''--patch'', pw_path pw, js ''--with-data-tar'', pw_tweakPath pw,
              js ''--verbose'']
             pid (processKey Patch (pw_identifier pw))
             (PatchJob (pw_identifier pw) (pw_path pw))
             (log (LogStartingPatch (pw_path pw) (pw_tweakPath pw))
                (st\<lparr>files := after_write (pw_path pw) (pw_data pw) res (files st)\<rparr>))))"

definition writeFile_callback ::
  "platform \<Rightarrow> nat \<Rightarrow> write_result \<Rightarrow> nat option \<Rightarrow> main_state \<Rightarrow> main_state" where
  "writeFile_callback env i res pid st =
     (if i < length (pendingWrites st) then
        (case pendingWrites st ! i of
           None \<Rightarrow> st
         | Some pw \<Rightarrow>
             writeFile_done env pw res pid
               (st\<lparr>pendingWrites := (pendingWrites st)[i := None]\<rparr>))
      else st)"

subsection \<open>Events\<close>

text \<open>
  What reaches the main process: the three requests, the completion of a pending
  write, and the events of a child. A failed launch makes the child emit
  \<^verbatim>\<open>'error'\<close>. No handler attaches a listener for it, so the emitter throws the
  error: an uncaught exception in the main process, outside every handler. It is
  recorded in \<open>uncaught\<close>; no variable of the module changes, and the model goes on
  as the main process does when the exception is only reported.
\<close>

definition child_error :: "nat \<Rightarrow> main_state \<Rightarrow> main_state" where
  "child_error h st =
     (if h < length (children st) then st\<lparr>uncaught := uncaught st @ [h]\<rparr> else st)"


datatype event =
    FetchGithubReleases jsstring "nat option"
  | DownloadAndCompileDeb jsstring "nat option"
  | StartPatching patch_request nat
  | WriteFileDone nat write_result "nat option"
  | StdoutData nat bytes
  | StderrData nat bytes
  | ChildClose nat "int option" bool
  | ChildError nat

fun step :: "platform \<Rightarrow> main_state \<Rightarrow> event \<Rightarrow> main_state" where
  "step env st (FetchGithubReleases repoUrl pid) = fetch_github_releases env repoUrl pid st"
| "step env st (DownloadAndCompileDeb downloadUrl pid) =
     download_and_compile_deb env downloadUrl pid st"
| "step env st (StartPatching data now) = start_patching env data now st"
| "step env st (WriteFileDone i res pid) = writeFile_callback env i res pid st"
| "step env st (StdoutData h data) = stdout_data env h data st"
| "step env st (StderrData h data) = stderr_data h data st"
| "step env st (ChildClose h code unlink_ok) = on_close h code unlink_ok st"
| "step env st (ChildError h) = child_error h st"

fun is_close :: "event \<Rightarrow> bool" where
  "is_close (ChildClose h code unlink_ok) = True"
| "is_close ev = False"

definition run :: "platform \<Rightarrow> main_state \<Rightarrow> event list \<Rightarrow> main_state" where
  "run env st evs = foldl (step env) st evs"

subsection \<open>The renderer's listener\<close>

text \<open>
  \<^verbatim>\<open>const identifier = data.identifier || data.download_url;\<close> in the renderer's
  \<^verbatim>\<open>backend-message\<close> listener; \<open>None\<close> is the TypeError on a \<^verbatim>\<open>null\<close> message.
\<close>

definition routing_identifier :: "jsval \<Rightarrow> jsval option" where
  "routing_identifier data =
     (if throws_on_access data then None
      else Some (js_or (get_prop data (js ''identifier'')) (get_prop data (js ''download_url''))))"

subsection \<open>Reading the stream as lines\<close>

text \<open>
  The complete newline-terminated segments of a text, in order and without their
  newlines, and the partial segment after the last newline: what the line loop is
  compared with.
\<close>

fun split_nl :: "jsstring \<Rightarrow> jsstring list \<times> jsstring" where
  "split_nl [] = ([], [])"
| "split_nl (c # cs) =
     (case split_nl cs of
        (ls, r) \<Rightarrow>
          if c = NL then ([] # ls, r)
          else (case ls of [] \<Rightarrow> ([], c # r) | l # ls' \<Rightarrow> ((c # l) # ls', r)))"

definition nonempty_lines :: "jsstring \<Rightarrow> jsstring list" where
  "nonempty_lines s = filter (\<lambda>l. l \<noteq> []) (fst (split_nl s))"

text \<open>What one line adds to \<open>sent\<close> and to the console, by the outcome of its \<^verbatim>\<open>try\<close>.\<close>

fun sent_by :: "outcome \<Rightarrow> (channel \<times> jsval) list" where
  "sent_by (Sends ch payload) = [(ch, payload)]"
| "sent_by Throws = []"
| "sent_by Quiet = []"

fun warned_by :: "kind \<Rightarrow> jsstring \<Rightarrow> outcome \<Rightarrow> log_entry list" where
  "warned_by k line Throws = [WarnNonJSON k line]"
| "warned_by k line (Sends ch payload) = []"
| "warned_by k line Quiet = []"

text \<open>
  A terminal dispatch, in the words of the specification: an operation result with
  status completed or failed, or a synthesized process exit.
\<close>

definition is_terminal :: "jsval \<Rightarrow> bool" where
  "is_terminal m \<longleftrightarrow>
     (get_prop m (js ''type'') = JStr (js ''operation'')
        \<and> (get_prop m (js ''status'') = JStr (js ''completed'')
             \<or> get_prop m (js ''status'') = JStr (js ''failed'')))
     \<or> get_prop m (js ''type'') = JStr (js ''process_exit'')"

subsection \<open>A platform for concrete runs\<close>

text \<open>
  The bytes of an ASCII text, and a platform to run the handlers on: \<^verbatim>\<open>JSON.parse\<close>
  on the lines that occur in the runs below (every other line of these runs is not
  JSON), and \<^verbatim>\<open>path.join\<close> on plain POSIX segments.
\<close>

definition ascii :: "string \<Rightarrow> bytes" where
  "ascii s = map of_char s"

fun join_segments :: "jsstring list \<Rightarrow> jsstring" where
  "join_segments [] = js ''.''"
| "join_segments [p] = p"
| "join_segments (p # ps) = p @ js ''/'' @ join_segments ps"

definition example_parse :: "jsstring \<Rightarrow> jsval option" where
  \<open>example_parse line =
     (if line = js ''{"a":1}'' then Some (JObj [(js ''a'', JNum 1)])
      else if line = js ''{"b":2}'' then Some (JObj [(js ''b'', JNum 2)])
      else if line = js ''{"type":"operation","status":"completed"}''
        then Some (JObj [(js ''type'', JStr (js ''operation'')),
                         (js ''status'', JStr (js ''completed''))])
      else if line = js ''{"identifier":"x","status":"patching"}''
        then Some (JObj [(js ''identifier'', JStr (js ''x'')),
                         (js ''status'', JStr (js ''patching''))])
      else if line = js ''{"a":"'' @ [0xE9] @ js ''"}''
        then Some (JObj [(js ''a'', JStr [0xE9])])
      else if line = js ''{"a":"'' @ [0xFFFD, 0xFFFD] @ js ''"}''
        then Some (JObj [(js ''a'', JStr [0xFFFD, 0xFFFD])])
      else None)\<close>

definition example_platform :: platform where
  "example_platform =
     \<lparr>JSON_parse = example_parse, path_join = join_segments,
      dirname = js ''/app'', os_tmpdir = js ''/tmp''\<rparr>"

subsection \<open>A run with one job of each kind\<close>

text \<open>
  A fetch, a download and a patch requested under the same string \<open>u\<close>, the patch
  past its staging: three children, three registry entries.
\<close>

definition three_jobs :: main_state where
  "three_jobs =
     run example_platform init_state
       [FetchGithubReleases (js ''u'') (Some 4711),
        DownloadAndCompileDeb (js ''u'') (Some 4712),
        StartPatching \<lparr>req_ipaBuffer = Some [1, 2, 3], req_tweakPath = Some (js ''t.tar''),
                       req_identifier = js ''u'', req_ipaName = Some (js ''a.ipa'')\<rparr> 5,
        WriteFileDone 0 Written (Some 4713)]"

subsection \<open>Two patch requests under one identifier\<close>

text \<open>
  Two valid \<^verbatim>\<open>start-patching\<close> requests with the same identifier, the second sent
  before the write of the first has completed, and then the two write callbacks, each
  after a successful write and launch.
\<close>

definition duplicate_patches :: main_state where
  "duplicate_patches =
     run example_platform init_state
       [StartPatching \<lparr>req_ipaBuffer = Some [1, 2, 3], req_tweakPath = Some (js ''t.tar''),
                       req_identifier = js ''u'', req_ipaName = Some (js ''a.ipa'')\<rparr> 5,
        StartPatching \<lparr>req_ipaBuffer = Some [1, 2, 3], req_tweakPath = Some (js ''t.tar''),
                       req_identifier = js ''u'', req_ipaName = Some (js ''a.ipa'')\<rparr> 6,
        WriteFileDone 0 Written (Some 4713),
        WriteFileDone 1 Written (Some 4714)]"

subsection \<open>The registry and the children\<close>

text \<open>
  Every registry entry names a child, and its key is the prefix of that child's kind
  followed by the argument of the request that spawned it.
\<close>

definition registry_ok :: "main_state \<Rightarrow> bool" where
  "registry_ok st \<longleftrightarrow>
     (\<forall>key h. activeProcesses st key = Some h \<longrightarrow>
        h < length (children st) \<and>
        key = kind_prefix (job_kind (ch_job (children st ! h))) @ job_arg (ch_job (children st ! h)))"

subsection \<open>A patch request waiting for its write\<close>

text \<open>The state after one valid \<^verbatim>\<open>start-patching\<close> request, before its write has completed.\<close>

definition staged_request :: main_state where
  "staged_request =
     start_patching example_platform
       \<lparr>req_ipaBuffer = Some [1, 2, 3], req_tweakPath = Some (js ''t.tar''),
        req_identifier = js ''u'', req_ipaName = Some (js ''a.ipa'')\<rparr> 5 init_state"

subsection \<open>A patch job with its child running\<close>

text \<open>The staged request after its write succeeded and the child was launched.\<close>

definition patch_running :: main_state where
  "patch_running = step example_platform staged_request (WriteFileDone 0 Written (Some 4713))"

subsection \<open>A download job with its child running\<close>

definition download_running :: main_state where
  "download_running =
     step example_platform init_state (DownloadAndCompileDeb (js ''u'') (Some 4711))"

section \<open>Properties\<close>

subsection \<open>The line loop against the segments of the text\<close>

lemma indexOf_None_split: "indexOf s NL = None \<Longrightarrow> split_nl s = ([], s)"
  by (induction s) (auto split: if_splits list.splits prod.splits)

lemma indexOf_Some_split:
  "indexOf s NL = Some i \<Longrightarrow>
   split_nl s = (take i s # fst (split_nl (drop (Suc i) s)), snd (split_nl (drop (Suc i) s)))"
proof (induction s arbitrary: i)
  case Nil
  then show ?case by simp
next
  case (Cons c cs)
  show ?case
  proof (cases "c = NL")
    case True
    with Cons.prems show ?thesis by (simp split: prod.splits)
  next
    case False
    with Cons.prems obtain j where j: "indexOf cs NL = Some j" "i = Suc j"
      by (auto split: if_splits)
    from Cons.IH[OF j(1)] False j(2) show ?thesis by (simp split: prod.splits)
  qed
qed

lemma process_lines_split:
  "process_lines f buffer st =
     (snd (split_nl buffer), foldl (\<lambda>s l. f l s) st (nonempty_lines buffer))"
proof (induction f buffer st rule: process_lines.induct)
  case (1 on_line buffer st)
  show ?case
  proof (cases "indexOf buffer NL")
    case None
    then show ?thesis
      by (subst process_lines.simps) (simp add: indexOf_None_split nonempty_lines_def)
  next
    case (Some i)
    from "1"[OF Some] Some show ?thesis
      by (subst process_lines.simps)
         (simp add: indexOf_Some_split substring_def substring_from_def nonempty_lines_def)
  qed
qed

lemma split_nl_append:
  "split_nl (a @ b) =
     (fst (split_nl a) @ fst (split_nl (snd (split_nl a) @ b)),
      snd (split_nl (snd (split_nl a) @ b)))"
  by (induction a) (auto split: list.splits prod.splits)

lemma split_nl_concat:
  "concat (map (\<lambda>l. l @ [NL]) (fst (split_nl s))) @ snd (split_nl s) = s"
  by (induction s) (auto split: list.splits prod.splits)

lemma split_nl_no_newline:
  "(\<forall>l \<in> set (fst (split_nl s)). NL \<notin> set l) \<and> NL \<notin> set (snd (split_nl s))"
  by (induction s) (auto split: list.splits prod.splits)

subsection \<open>What the stdout listener does to the state\<close>

lemma on_line_sent: "sent (on_line env j l st) = sent st @ sent_by (try_line env j l)"
  by (cases "try_line env j l") (simp_all add: on_line_def send_def log_def)

lemma on_line_console:
  "console (on_line env j l st) = console st @ warned_by (job_kind j) l (try_line env j l)"
  by (cases "try_line env j l") (simp_all add: on_line_def send_def log_def)

lemma on_line_rest:
  "activeProcesses (on_line env j l st) = activeProcesses st"
  "children (on_line env j l st) = children st"
  "spawned (on_line env j l st) = spawned st"
  "pendingWrites (on_line env j l st) = pendingWrites st"
  "files (on_line env j l st) = files st"
  "deleted (on_line env j l st) = deleted st"
  "unlinked (on_line env j l st) = unlinked st"
  by (cases "try_line env j l"; simp add: on_line_def send_def log_def)+

lemma fold_on_line_sent:
  "sent (foldl (\<lambda>s l. on_line env j l s) st ls) =
     sent st @ concat (map (\<lambda>l. sent_by (try_line env j l)) ls)"
  by (induction ls arbitrary: st) (simp_all add: on_line_sent)

lemma fold_on_line_console:
  "console (foldl (\<lambda>s l. on_line env j l s) st ls) =
     console st @ concat (map (\<lambda>l. warned_by (job_kind j) l (try_line env j l)) ls)"
  by (induction ls arbitrary: st) (simp_all add: on_line_console)

lemma fold_on_line_rest:
  "activeProcesses (foldl (\<lambda>s l. on_line env j l s) st ls) = activeProcesses st"
  "children (foldl (\<lambda>s l. on_line env j l s) st ls) = children st"
  "spawned (foldl (\<lambda>s l. on_line env j l s) st ls) = spawned st"
  "pendingWrites (foldl (\<lambda>s l. on_line env j l s) st ls) = pendingWrites st"
  "files (foldl (\<lambda>s l. on_line env j l s) st ls) = files st"
  "deleted (foldl (\<lambda>s l. on_line env j l s) st ls) = deleted st"
  "unlinked (foldl (\<lambda>s l. on_line env j l s) st ls) = unlinked st"
  by (induction ls arbitrary: st; simp add: on_line_rest)+

lemma log_chunk_fields:
  "sent (log_chunk j d st) = sent st"
  "activeProcesses (log_chunk j d st) = activeProcesses st"
  "children (log_chunk j d st) = children st"
  "spawned (log_chunk j d st) = spawned st"
  "pendingWrites (log_chunk j d st) = pendingWrites st"
  "files (log_chunk j d st) = files st"
  "deleted (log_chunk j d st) = deleted st"
  "unlinked (log_chunk j d st) = unlinked st"
  by (cases j; simp add: log_def)+

lemma stdout_data_sent:
  "h < length (children st) \<Longrightarrow>
   sent (stdout_data env h d st) =
     sent st @ concat (map (\<lambda>l. sent_by (try_line env (ch_job (children st ! h)) l))
                        (nonempty_lines (ch_buffer (children st ! h) @ toString d)))"
  by (simp add: stdout_data_def Let_def process_lines_split fold_on_line_sent log_chunk_fields
        cong: if_cong)

lemma stdout_data_console:
  "h < length (children st) \<Longrightarrow>
   console (stdout_data env h d st) =
     console (log_chunk (ch_job (children st ! h)) d st) @
     concat (map (\<lambda>l. warned_by (job_kind (ch_job (children st ! h))) l
                          (try_line env (ch_job (children st ! h)) l))
               (nonempty_lines (ch_buffer (children st ! h) @ toString d)))"
  by (simp add: stdout_data_def Let_def process_lines_split fold_on_line_console)

lemma stdout_data_children:
  "h < length (children st) \<Longrightarrow>
   children (stdout_data env h d st) =
     (children st)[h := (children st ! h)\<lparr>ch_buffer :=
         snd (split_nl (ch_buffer (children st ! h) @ toString d))\<rparr>]"
  by (simp add: stdout_data_def Let_def process_lines_split fold_on_line_rest log_chunk_fields)

lemma stdout_data_rest:
  "activeProcesses (stdout_data env h d st) = activeProcesses st"
  "spawned (stdout_data env h d st) = spawned st"
  "pendingWrites (stdout_data env h d st) = pendingWrites st"
  "files (stdout_data env h d st) = files st"
  "deleted (stdout_data env h d st) = deleted st"
  "unlinked (stdout_data env h d st) = unlinked st"
  by (simp_all add: stdout_data_def Let_def process_lines_split fold_on_line_rest log_chunk_fields)

lemma try_line_parse_failure: "JSON_parse env l = None \<Longrightarrow> try_line env j l = Throws"
  by (cases j) (simp_all add: fetch_try_def download_try_def patch_try_def)

subsection \<open>Decoding ASCII chunks\<close>

lemma utf8_run_ascii:
  "\<forall>b \<in> set bs. b < 128 \<Longrightarrow> utf8_run Idle bs = bs"
  by (induction bs) (simp_all add: utf8_lead_def)

lemma unat_of_char8: "unat (of_char c :: 8 word) = of_char c"
proof -
  have "unat (of_nat (of_char c) :: 8 word) = of_char c"
    by (simp add: unat_of_nat)
  then show ?thesis by (simp only: of_nat_of_char)
qed

lemma utf16_of_char: "(of_char c :: nat) < 128 \<Longrightarrow> utf16 (of_char c) = [of_char c]"
  by (simp add: utf16_def of_nat_of_char)

lemma toString_ascii:
  "\<forall>c \<in> set s. (of_char c :: nat) < 128 \<Longrightarrow> toString (ascii s) = js s"
proof -
  assume a: "\<forall>c \<in> set s. (of_char c :: nat) < 128"
  have u: "map unat (ascii s) = map of_char s"
    by (simp add: ascii_def unat_of_char8)
  have r: "utf8_run Idle (map of_char s) = map of_char s"
    using a by (intro utf8_run_ascii) auto
  have "concat (map utf16 (map of_char s)) = js s"
    using a by (induction s) (simp_all add: js_def utf16_of_char)
  with u r show ?thesis by (simp add: toString_def)
qed

subsection \<open>Admission\<close>

lemma download_admitted:
  "activeProcesses st (processKey DownloadConvert u) = None \<Longrightarrow>
   download_and_compile_deb env u pid st =
     st\<lparr>spawned := spawned st @
            [(js ''python'',
              [path_join env [dirname env, js ''backend'', js ''DebMaster.py''],
               js ''--download-url'', u, js ''--verbose''], pid)],
        activeProcesses := (activeProcesses st)(processKey DownloadConvert u \<mapsto> length (children st)),
        children := children st @ [\<lparr>ch_job = DownloadJob u, ch_buffer = []\<rparr>],
        console := console st @ [LogStarting DownloadConvert u]\<rparr>"
  by (simp add: download_and_compile_deb_def spawn_and_register_def log_def)

subsection \<open>Claims about the stream decoder\<close>

text \<open>
  C3. Whatever a child writes, one chunk adds to the dispatched messages exactly what
  the \<^verbatim>\<open>try\<close> statements of the non-empty complete lines of the buffered text send,
  in line order, and to the console exactly their warnings. A line that
  \<^verbatim>\<open>JSON.parse\<close> rejects sends nothing and leaves one warning that carries the
  line, so the lines after it are handled as if it had not been there; empty segments
  are filtered out and leave neither a message nor a warning.
\<close>

theorem malformed_line_skipped:
  assumes "h < length (children st)"
  shows "sent (stdout_data env h d st) =
           sent st @ concat (map (\<lambda>l. sent_by (try_line env (ch_job (children st ! h)) l))
                              (nonempty_lines (ch_buffer (children st ! h) @ toString d)))
         \<and> console (stdout_data env h d st) =
           console (log_chunk (ch_job (children st ! h)) d st) @
           concat (map (\<lambda>l. warned_by (job_kind (ch_job (children st ! h))) l
                                (try_line env (ch_job (children st ! h)) l))
                     (nonempty_lines (ch_buffer (children st ! h) @ toString d)))
         \<and> (\<forall>j l. JSON_parse env l = None \<longrightarrow>
                sent_by (try_line env j l) = [] \<and>
                warned_by (job_kind j) l (try_line env j l) = [WarnNonJSON (job_kind j) l])"
  using assms
  by (simp add: stdout_data_sent stdout_data_console try_line_parse_failure)

theorem malformed_line_skipped_witness:
  \<open>sent (stdout_data example_platform 0 (ascii ''not json\<newline>{"a":1}\<newline>'') download_running) =
     [(BackendMessage, JObj [(js ''a'', JNum 1)])]
   \<and> console (stdout_data example_platform 0 (ascii ''not json\<newline>{"a":1}\<newline>'')
               download_running) =
     [LogStarting DownloadConvert (js ''u''), WarnNonJSON DownloadConvert (js ''not json'')]
   \<and> sent (stdout_data example_platform 0 (ascii ''\<newline>\<newline>not json\<newline>\<newline>{"a":1}\<newline>'')
            download_running) =
     [(BackendMessage, JObj [(js ''a'', JNum 1)])]
   \<and> console (stdout_data example_platform 0
               (ascii ''\<newline>\<newline>not json\<newline>\<newline>{"a":1}\<newline>'') download_running) =
     [LogStarting DownloadConvert (js ''u''), WarnNonJSON DownloadConvert (js ''not json'')]\<close>
proof -
  have st: "children download_running = [\<lparr>ch_job = DownloadJob (js ''u''), ch_buffer = []\<rparr>]"
      "sent download_running = []"
      "console download_running = [LogStarting DownloadConvert (js ''u'')]"
    by (simp_all add: download_running_def download_admitted init_state_def)
  have h: "0 < length (children download_running)" by (simp add: st)
  have ls: \<open>nonempty_lines (toString (ascii ''not json\<newline>{"a":1}\<newline>'')) =
              [js ''not json'', js ''{"a":1}'']\<close>
     \<open>nonempty_lines (toString (ascii ''\<newline>\<newline>not json\<newline>\<newline>{"a":1}\<newline>'')) =
              [js ''not json'', js ''{"a":1}'']\<close>
    by (simp_all add: toString_ascii) (simp_all add: nonempty_lines_def js_def NL_def)
  have p: \<open>download_try example_platform (js ''not json'') = Throws\<close>
     \<open>download_try example_platform (js ''{"a":1}'') =
        Sends BackendMessage (JObj [(js ''a'', JNum 1)])\<close>
    by (simp_all add: download_try_def example_platform_def example_parse_def js_def)
  from malformed_line_skipped [OF h, of example_platform \<open>ascii ''not json\<newline>{"a":1}\<newline>''\<close>]
  have a: \<open>sent (stdout_data example_platform 0 (ascii ''not json\<newline>{"a":1}\<newline>'')
                 download_running) =
              [(BackendMessage, JObj [(js ''a'', JNum 1)])]\<close>
     \<open>console (stdout_data example_platform 0 (ascii ''not json\<newline>{"a":1}\<newline>'')
                 download_running) =
        [LogStarting DownloadConvert (js ''u''), WarnNonJSON DownloadConvert (js ''not json'')]\<close>
    by (simp_all add: st ls p)
  from malformed_line_skipped
         [OF h, of example_platform \<open>ascii ''\<newline>\<newline>not json\<newline>\<newline>{"a":1}\<newline>''\<close>]
  have b: \<open>sent (stdout_data example_platform 0
                   (ascii ''\<newline>\<newline>not json\<newline>\<newline>{"a":1}\<newline>'') download_running) =
              [(BackendMessage, JObj [(js ''a'', JNum 1)])]\<close>
     \<open>console (stdout_data example_platform 0
                   (ascii ''\<newline>\<newline>not json\<newline>\<newline>{"a":1}\<newline>'') download_running) =
        [LogStarting DownloadConvert (js ''u''), WarnNonJSON DownloadConvert (js ''not json'')]\<close>
    by (simp_all add: st ls p)
  from a b show ?thesis by simp
qed

subsection \<open>Admission, continued\<close>

lemma fetch_admitted:
  "activeProcesses st (processKey Fetch u) = None \<Longrightarrow>
   fetch_github_releases env u pid st =
     st\<lparr>spawned := spawned st @
            [(js ''python'',
              [path_join env [dirname env, js ''backend'', js ''DebMaster.py''],
               js ''--github'', u, js ''--verbose''], pid)],
        activeProcesses := (activeProcesses st)(processKey Fetch u \<mapsto> length (children st)),
        children := children st @ [\<lparr>ch_job = FetchJob u, ch_buffer = []\<rparr>],
        console := console st @ [LogStarting Fetch u]\<rparr>"
  by (simp add: fetch_github_releases_def spawn_and_register_def log_def)

lemma writeFile_done_ok:
  "writeFile_done env pw Written pid st =
     st\<lparr>files := (files st)(pw_path pw \<mapsto> pw_data pw),
        spawned := spawned st @
            [(js ''python'',
              [path_join env [dirname env, js ''backend'', js ''DebMaster.py''],
               js ''--patch'', pw_path pw, js ''--with-data-tar'', pw_tweakPath pw,
               js ''--verbose''], pid)],
        activeProcesses := (activeProcesses st)(processKey Patch (pw_identifier pw) \<mapsto> length (children st)),
        children := children st @ [\<lparr>ch_job = PatchJob (pw_identifier pw) (pw_path pw), ch_buffer = []\<rparr>],
        console := console st @ [LogStartingPatch (pw_path pw) (pw_tweakPath pw),
                                 LogSpawnedPatch pid (pw_identifier pw)]\<rparr>"
  by (simp add: writeFile_done_def spawn_and_register_def log_def)

lemma processKey_kind: "processKey k s = processKey k' s' \<Longrightarrow> k = k'"
  by (cases k; cases k') (simp_all add: processKey_def js_def)

lemma processKey_arg: "processKey k s = processKey k s' \<longleftrightarrow> s = s'"
  by (simp add: processKey_def)

lemma three_jobs_registry:
  "activeProcesses three_jobs (processKey Fetch (js ''u'')) = Some 0"
  "activeProcesses three_jobs (processKey DownloadConvert (js ''u'')) = Some 1"
  "activeProcesses three_jobs (processKey Patch (js ''u'')) = Some 2"
  by (simp_all add: three_jobs_def run_def init_state_def fetch_admitted download_admitted
        start_patching_def writeFile_callback_def writeFile_done_ok processKey_arg
        processKey_def js_def)

subsection \<open>Claims about the registry\<close>

text \<open>
  The guard. While the registry holds the key of a request's kind and argument, the
  request does nothing but write the warning to the console: the state is otherwise
  the same, so no process is spawned, no entry of the registry and no child (its
  buffer and listeners) changes, nothing is sent, and no write is queued for later.
  The fetch and download handlers register the key in the same handler run that
  passed the guard.
\<close>

lemma duplicate_request_rejected:
  "(activeProcesses st (processKey Fetch k) \<noteq> None \<longrightarrow>
      step env st (FetchGithubReleases k pid) =
        st\<lparr>console := console st @ [WarnAlreadyRunning Fetch k]\<rparr>)
   \<and> (activeProcesses st (processKey DownloadConvert k) \<noteq> None \<longrightarrow>
      step env st (DownloadAndCompileDeb k pid) =
        st\<lparr>console := console st @ [WarnAlreadyRunning DownloadConvert k]\<rparr>)
   \<and> (activeProcesses st (processKey Patch (req_identifier data)) \<noteq> None \<longrightarrow>
      step env st (StartPatching data now) =
        st\<lparr>console := console st @ [WarnAlreadyRunning Patch (req_identifier data)]\<rparr>)"
  by (simp add: fetch_github_releases_def download_and_compile_deb_def start_patching_def
        log_def)

lemma duplicate_request_rejected_witness:
  "activeProcesses three_jobs (processKey Fetch (js ''u'')) \<noteq> None
   \<and> activeProcesses three_jobs (processKey DownloadConvert (js ''u'')) \<noteq> None
   \<and> activeProcesses three_jobs (processKey Patch (js ''u'')) \<noteq> None
   \<and> step example_platform three_jobs (FetchGithubReleases (js ''u'') (Some 4714)) =
        three_jobs\<lparr>console := console three_jobs @ [WarnAlreadyRunning Fetch (js ''u'')]\<rparr>
   \<and> step example_platform three_jobs (DownloadAndCompileDeb (js ''u'') (Some 4714)) =
        three_jobs\<lparr>console := console three_jobs @ [WarnAlreadyRunning DownloadConvert (js ''u'')]\<rparr>
   \<and> step example_platform three_jobs
        (StartPatching \<lparr>req_ipaBuffer = Some [1, 2, 3], req_tweakPath = Some (js ''t.tar''),
                        req_identifier = js ''u'', req_ipaName = Some (js ''a.ipa'')\<rparr> 6) =
        three_jobs\<lparr>console := console three_jobs @ [WarnAlreadyRunning Patch (js ''u'')]\<rparr>"
  using duplicate_request_rejected
          [of three_jobs "js ''u''" example_platform "Some 4714"
              "\<lparr>req_ipaBuffer = Some [1, 2, 3], req_tweakPath = Some (js ''t.tar''),
                req_identifier = js ''u'', req_ipaName = Some (js ''a.ipa'')\<rparr>" 6]
  by (simp add: three_jobs_registry)

text \<open>
  The patch handler registers its key in the callback of \<^verbatim>\<open>fs.writeFile\<close>, after the
  guard: until then the key is not in the registry, and a second valid request under
  the same identifier passes the guard as the first did.
\<close>

lemma patch_requests_before_registration:
  "activeProcesses st (processKey Patch (req_identifier data)) = None \<Longrightarrow>
   req_ipaBuffer data = Some buf \<Longrightarrow> req_tweakPath data = Some tp \<Longrightarrow> tp \<noteq> [] \<Longrightarrow>
   length (pendingWrites (run env st [StartPatching data now, StartPatching data now'])) =
     length (pendingWrites st) + 2
   \<and> activeProcesses (run env st [StartPatching data now, StartPatching data now']) =
       activeProcesses st"
  by (simp add: run_def start_patching_def)

text \<open>
  C1. The claim fails for a patch job whose input is still being staged. Two
  \<^verbatim>\<open>start-patching\<close> requests with the same identifier \<^verbatim>\<open>u\<close> arrive before the
  first write has completed, and then both writes complete. The second request is not
  turned away: no warning is written, two processes are spawned for \<^verbatim>\<open>patch:u\<close>,
  and the registry entry set for the first child is overwritten with the second. The
  first job does not go on unaffected by the second, nor the second by the first: when
  the first child closes, the key is free and the staged file both children were given
  is removed, with the second still running.
\<close>

theorem duplicate_patch_admitted:
  "children duplicate_patches =
     [\<lparr>ch_job = PatchJob (js ''u'') (js ''/tmp/a.ipa''), ch_buffer = []\<rparr>,
      \<lparr>ch_job = PatchJob (js ''u'') (js ''/tmp/a.ipa''), ch_buffer = []\<rparr>]
   \<and> map (snd \<circ> snd) (spawned duplicate_patches) = [Some 4713, Some 4714]
   \<and> activeProcesses duplicate_patches (js ''patch:u'') = Some 1
   \<and> console duplicate_patches =
       [LogStartingPatch (js ''/tmp/a.ipa'') (js ''t.tar''), LogSpawnedPatch (Some 4713) (js ''u''),
        LogStartingPatch (js ''/tmp/a.ipa'') (js ''t.tar''), LogSpawnedPatch (Some 4714) (js ''u'')]
   \<and> activeProcesses (step example_platform duplicate_patches (ChildClose 0 (Some 0) True))
         (js ''patch:u'') = None
   \<and> files (step example_platform duplicate_patches (ChildClose 0 (Some 0) True))
         (js ''/tmp/a.ipa'') = None"
proof -
  have st: "duplicate_patches =
     \<lparr>activeProcesses = [js ''patch:u'' \<mapsto> 1],
      children =
        [\<lparr>ch_job = PatchJob (js ''u'') (js ''/tmp/a.ipa''), ch_buffer = []\<rparr>,
         \<lparr>ch_job = PatchJob (js ''u'') (js ''/tmp/a.ipa''), ch_buffer = []\<rparr>],
      spawned =
        [(js ''python'',
          [js ''/app/backend/DebMaster.py'', js ''--patch'', js ''/tmp/a.ipa'',
           js ''--with-data-tar'', js ''t.tar'', js ''--verbose''], Some 4713),
         (js ''python'',
          [js ''/app/backend/DebMaster.py'', js ''--patch'', js ''/tmp/a.ipa'',
           js ''--with-data-tar'', js ''t.tar'', js ''--verbose''], Some 4714)],
      pendingWrites = [None, None], sent = [],
      console =
        [LogStartingPatch (js ''/tmp/a.ipa'') (js ''t.tar''), LogSpawnedPatch (Some 4713) (js ''u''),
         LogStartingPatch (js ''/tmp/a.ipa'') (js ''t.tar''), LogSpawnedPatch (Some 4714) (js ''u'')],
      files = [js ''/tmp/a.ipa'' \<mapsto> [1, 2, 3]], deleted = [], unlinked = [],
      uncaught = []\<rparr>"
    by (simp add: duplicate_patches_def run_def init_state_def start_patching_def
          writeFile_callback_def writeFile_done_ok example_platform_def string_or_def
          processKey_def js_def)
  show ?thesis
    unfolding st
    by (simp add: on_close_def unlink_def send_def log_def registry_delete_def processKey_def
          js_def)
qed

subsection \<open>The registry invariant\<close>

lemma registry_ok_init: "registry_ok init_state"
  by (simp add: registry_ok_def init_state_def)

lemma registry_ok_log: "registry_ok (log e st) = registry_ok st"
  by (simp add: registry_ok_def log_def)

lemma registry_ok_send: "registry_ok (send ch m st) = registry_ok st"
  by (simp add: registry_ok_def send_def)

lemma registry_ok_spawn:
  "registry_ok st \<Longrightarrow> key = processKey (job_kind j) (job_arg j) \<Longrightarrow>
   registry_ok (spawn_and_register args pid key j st)"
  by (auto simp: registry_ok_def spawn_and_register_def processKey_def nth_append less_Suc_eq)

lemma registry_ok_delete: "registry_ok st \<Longrightarrow> registry_ok (registry_delete key st)"
  by (auto simp: registry_ok_def registry_delete_def)

lemma registry_ok_unlink: "registry_ok (unlink p ok st) = registry_ok st"
  by (simp add: registry_ok_def unlink_def log_def)

lemma registry_ok_stdout: "registry_ok st \<Longrightarrow> registry_ok (stdout_data env h d st)"
proof (cases "h < length (children st)")
  case True
  assume "registry_ok st"
  with True show ?thesis
    by (auto simp: registry_ok_def stdout_data_rest stdout_data_children nth_list_update)
next
  case False
  assume "registry_ok st"
  with False show ?thesis by (simp add: stdout_data_def)
qed

lemma registry_ok_step: "registry_ok st \<Longrightarrow> registry_ok (step env st ev)"
proof (cases ev)
  case (FetchGithubReleases u pid)
  assume "registry_ok st"
  then show ?thesis
    by (simp add: FetchGithubReleases fetch_github_releases_def registry_ok_log registry_ok_spawn)
next
  case (DownloadAndCompileDeb u pid)
  assume "registry_ok st"
  then show ?thesis
    by (simp add: DownloadAndCompileDeb download_and_compile_deb_def registry_ok_log
          registry_ok_spawn)
next
  case (StartPatching data now)
  assume ok: "registry_ok st"
  have "registry_ok (st\<lparr>pendingWrites := pw\<rparr>)" for pw
    using ok by (simp add: registry_ok_def)
  with ok show ?thesis
    by (simp add: StartPatching start_patching_def invalid_patch_data_def registry_ok_log
          registry_ok_send split: option.splits)
next
  case (WriteFileDone i write_ok pid)
  assume ok: "registry_ok st"
  have a: "registry_ok (st\<lparr>pendingWrites := pw\<rparr>)" for pw
    using ok by (simp add: registry_ok_def)
  have b: "registry_ok s \<Longrightarrow> registry_ok (s\<lparr>files := f\<rparr>)" for s f
    by (simp add: registry_ok_def)
  have "registry_ok s \<Longrightarrow> registry_ok (writeFile_done env pw write_ok pid s)" for s pw
    by (simp add: writeFile_done_def registry_ok_log registry_ok_send registry_ok_spawn b)
  with ok a show ?thesis
    by (simp add: WriteFileDone writeFile_callback_def split: option.splits)
next
  case (StdoutData h d)
  assume "registry_ok st"
  then show ?thesis by (simp add: StdoutData registry_ok_stdout)
next
  case (StderrData h d)
  assume "registry_ok st"
  then show ?thesis by (simp add: StderrData stderr_data_def registry_ok_log)
next
  case (ChildClose h code unlink_ok)
  assume ok: "registry_ok st"
  have "registry_ok (close_job j code unlink_ok st)" for j
    using ok
    by (cases j)
       (simp_all add: registry_ok_log registry_ok_send registry_ok_unlink registry_ok_delete)
  then show ?thesis using ok by (simp add: ChildClose on_close_def)
next
  case (ChildError h)
  assume "registry_ok st"
  then show ?thesis by (simp add: ChildError child_error_def registry_ok_def)
qed

lemma registry_ok_run: "registry_ok st \<Longrightarrow> registry_ok (run env st evs)"
  unfolding run_def by (induction evs arbitrary: st) (simp_all add: registry_ok_step)

subsection \<open>Rejection happens exactly for a registered key of the same kind\<close>

lemma fetch_rejected_iff:
  "fetch_github_releases env s pid st = log (WarnAlreadyRunning Fetch s) st \<longleftrightarrow>
   activeProcesses st (processKey Fetch s) \<noteq> None"
proof
  assume eq: "fetch_github_releases env s pid st = log (WarnAlreadyRunning Fetch s) st"
  show "activeProcesses st (processKey Fetch s) \<noteq> None"
  proof
    assume "activeProcesses st (processKey Fetch s) = None"
    then have "spawned (fetch_github_releases env s pid st) \<noteq> spawned st"
      by (simp add: fetch_admitted)
    with eq show False by (simp add: log_def)
  qed
next
  assume "activeProcesses st (processKey Fetch s) \<noteq> None"
  then show "fetch_github_releases env s pid st = log (WarnAlreadyRunning Fetch s) st"
    by (simp add: fetch_github_releases_def)
qed

lemma download_rejected_iff:
  "download_and_compile_deb env s pid st = log (WarnAlreadyRunning DownloadConvert s) st \<longleftrightarrow>
   activeProcesses st (processKey DownloadConvert s) \<noteq> None"
proof
  assume eq: "download_and_compile_deb env s pid st = log (WarnAlreadyRunning DownloadConvert s) st"
  show "activeProcesses st (processKey DownloadConvert s) \<noteq> None"
  proof
    assume "activeProcesses st (processKey DownloadConvert s) = None"
    then have "spawned (download_and_compile_deb env s pid st) \<noteq> spawned st"
      by (simp add: download_admitted)
    with eq show False by (simp add: log_def)
  qed
next
  assume "activeProcesses st (processKey DownloadConvert s) \<noteq> None"
  then show "download_and_compile_deb env s pid st = log (WarnAlreadyRunning DownloadConvert s) st"
    by (simp add: download_and_compile_deb_def)
qed

lemma patch_rejected_iff:
  "start_patching env data now st = log (WarnAlreadyRunning Patch (req_identifier data)) st \<longleftrightarrow>
   activeProcesses st (processKey Patch (req_identifier data)) \<noteq> None"
proof
  assume eq: "start_patching env data now st = log (WarnAlreadyRunning Patch (req_identifier data)) st"
  show "activeProcesses st (processKey Patch (req_identifier data)) \<noteq> None"
  proof
    assume free: "activeProcesses st (processKey Patch (req_identifier data)) = None"
    have "sent (start_patching env data now st) \<noteq> sent st
          \<or> pendingWrites (start_patching env data now st) \<noteq> pendingWrites st"
      using free
      by (simp add: start_patching_def invalid_patch_data_def send_def log_def
            split: option.splits)
    with eq show False by (simp add: log_def)
  qed
next
  assume "activeProcesses st (processKey Patch (req_identifier data)) \<noteq> None"
  then show "start_patching env data now st = log (WarnAlreadyRunning Patch (req_identifier data)) st"
    by (simp add: start_patching_def)
qed

text \<open>
  C10. Registry keys are namespaced by kind. In every state the handlers can reach,
  each registry entry's key is the prefix of its child's kind (\<^verbatim>\<open>fetch:\<close>,
  \<^verbatim>\<open>download:\<close> or \<^verbatim>\<open>patch:\<close>) followed by the requester's string; keys of
  different kinds are different whatever the strings are; and a request is turned away
  exactly when the key of its own kind and string is registered, so entries of the
  other kinds under the same string neither block it nor are touched by it.
\<close>

theorem registry_keys_namespaced:
  "registry_ok (run env init_state evs)
   \<and> (k \<noteq> k' \<longrightarrow> processKey k a \<noteq> processKey k' b)
   \<and> (step env st (FetchGithubReleases s pid) = log (WarnAlreadyRunning Fetch s) st \<longleftrightarrow>
        activeProcesses st (processKey Fetch s) \<noteq> None)
   \<and> (step env st (DownloadAndCompileDeb s pid) = log (WarnAlreadyRunning DownloadConvert s) st \<longleftrightarrow>
        activeProcesses st (processKey DownloadConvert s) \<noteq> None)
   \<and> (step env st (StartPatching data now) =
          log (WarnAlreadyRunning Patch (req_identifier data)) st \<longleftrightarrow>
        activeProcesses st (processKey Patch (req_identifier data)) \<noteq> None)"
  using processKey_kind [of k a k' b]
  by (auto simp: registry_ok_run registry_ok_init fetch_rejected_iff download_rejected_iff
        patch_rejected_iff)

theorem registry_keys_namespaced_witness:
  "registry_ok three_jobs
   \<and> processKey Fetch (js ''u'') \<noteq> processKey DownloadConvert (js ''u'')
   \<and> activeProcesses three_jobs (js ''fetch:u'') = Some 0
   \<and> activeProcesses three_jobs (js ''download:u'') = Some 1
   \<and> activeProcesses three_jobs (js ''patch:u'') = Some 2
   \<and> step example_platform three_jobs (FetchGithubReleases (js ''v'') (Some 4714)) \<noteq>
        log (WarnAlreadyRunning Fetch (js ''v'')) three_jobs"
proof -
  have free: "activeProcesses three_jobs (processKey Fetch (js ''v'')) = None"
    by (simp add: three_jobs_def run_def init_state_def fetch_admitted download_admitted
        start_patching_def writeFile_callback_def writeFile_done_ok processKey_arg
        processKey_def js_def)
  have keys: "js ''fetch:u'' = processKey Fetch (js ''u'')"
     "js ''download:u'' = processKey DownloadConvert (js ''u'')"
     "js ''patch:u'' = processKey Patch (js ''u'')"
    by (simp_all add: processKey_def js_def)
  from registry_keys_namespaced
         [of example_platform
             "[FetchGithubReleases (js ''u'') (Some 4711),
               DownloadAndCompileDeb (js ''u'') (Some 4712),
               StartPatching \<lparr>req_ipaBuffer = Some [1, 2, 3], req_tweakPath = Some (js ''t.tar''),
                              req_identifier = js ''u'', req_ipaName = Some (js ''a.ipa'')\<rparr> 5,
               WriteFileDone 0 Written (Some 4713)]"
             Fetch DownloadConvert "js ''u''" "js ''u''" three_jobs "js ''v''" "Some 4714"]
       free
  show ?thesis
    unfolding keys by (simp add: three_jobs_registry three_jobs_def [symmetric])
qed

lemma writeFile_callback_pending:
  "i < length (pendingWrites st) \<Longrightarrow> pendingWrites st ! i = Some pw \<Longrightarrow>
   writeFile_callback env i res pid st =
     writeFile_done env pw res pid (st\<lparr>pendingWrites := (pendingWrites st)[i := None]\<rparr>)"
  by (simp add: writeFile_callback_def)

lemma staged_request_pending:
  "pendingWrites staged_request =
     [Some \<lparr>pw_path = js ''/tmp/a.ipa'', pw_data = [1, 2, 3], pw_tweakPath = js ''t.tar'',
            pw_identifier = js ''u''\<rparr>]"
  by (simp add: staged_request_def start_patching_def init_state_def example_platform_def
        string_or_def js_def)

lemma staged_request_fields:
  "sent staged_request = []" "spawned staged_request = []" "children staged_request = []"
  "activeProcesses staged_request = Map.empty" "files staged_request = Map.empty"
  "unlinked staged_request = []" "deleted staged_request = []" "console staged_request = []"
  "uncaught staged_request = []"
  by (simp_all add: staged_request_def start_patching_def init_state_def js_def)

subsection \<open>Claims about launch and staging failures\<close>

text \<open>
  C7, as the specification states it, fails: when the launch fails (\<^verbatim>\<open>spawn\<close> gives
  a child without a pid, which then emits \<^verbatim>\<open>'error'\<close>), nothing has been sent to the
  consumer and the registry holds the key.
\<close>

theorem launch_failure_counterexample:
  "sent (run example_platform init_state
           [FetchGithubReleases (js ''u'') None, ChildError 0]) = []
   \<and> activeProcesses (run example_platform init_state
           [FetchGithubReleases (js ''u'') None, ChildError 0]) (js ''fetch:u'') = Some 0"
  by (simp add: run_def init_state_def fetch_admitted child_error_def processKey_def js_def)

text \<open>
  A registered key stays registered under every event that is not a close event: the
  requests and the write callback only add or overwrite entries, and the other
  listeners do not touch the registry.
\<close>

lemma registered_key_stays:
  assumes "activeProcesses st key \<noteq> None" and "\<not> is_close ev"
  shows "activeProcesses (step env st ev) key \<noteq> None"
proof (cases ev)
  case (FetchGithubReleases u pid)
  with assms(1) show ?thesis
    by (simp add: fetch_github_releases_def spawn_and_register_def log_def)
next
  case (DownloadAndCompileDeb u pid)
  with assms(1) show ?thesis
    by (simp add: download_and_compile_deb_def spawn_and_register_def log_def)
next
  case (StartPatching data now)
  have "activeProcesses (start_patching env data now st) = activeProcesses st"
    by (simp add: start_patching_def invalid_patch_data_def send_def log_def
          split: option.splits)
  with assms(1) StartPatching show ?thesis by simp
next
  case (WriteFileDone i res pid)
  have "activeProcesses s key \<noteq> None \<Longrightarrow>
        activeProcesses (writeFile_done env pw res pid s) key \<noteq> None" for s pw
    by (simp add: writeFile_done_def spawn_and_register_def send_def log_def)
  with assms(1) WriteFileDone show ?thesis
    by (simp add: writeFile_callback_def split: option.splits)
next
  case (StdoutData h d)
  with assms(1) show ?thesis by (simp add: stdout_data_rest)
next
  case (StderrData h d)
  with assms(1) show ?thesis by (simp add: stderr_data_def log_def)
next
  case (ChildClose h code unlink_ok)
  with assms(2) show ?thesis by simp
next
  case (ChildError h)
  with assms(1) show ?thesis by (simp add: child_error_def)
qed

text \<open>
  C7, amended. A failed launch is handled like a successful one: the request handler
  (for a patch, the write callback) sends nothing and registers the child under the
  key. The child's \<^verbatim>\<open>'error'\<close> event has no listener: it is raised as an uncaught
  exception in the main process, and after it the consumer has still received nothing
  and the key is still registered to that child. No event other than a close event
  removes a registered key.
\<close>

theorem launch_failure_unnoticed:
  "(activeProcesses st (processKey Fetch u) = None \<longrightarrow>
      sent (run env st [FetchGithubReleases u None, ChildError (length (children st))]) = sent st
      \<and> activeProcesses (run env st [FetchGithubReleases u None, ChildError (length (children st))])
            (processKey Fetch u) = Some (length (children st))
      \<and> uncaught (run env st [FetchGithubReleases u None, ChildError (length (children st))]) =
            uncaught st @ [length (children st)])
   \<and> (activeProcesses st (processKey DownloadConvert u) = None \<longrightarrow>
      sent (run env st [DownloadAndCompileDeb u None, ChildError (length (children st))]) = sent st
      \<and> activeProcesses (run env st [DownloadAndCompileDeb u None, ChildError (length (children st))])
            (processKey DownloadConvert u) = Some (length (children st))
      \<and> uncaught (run env st [DownloadAndCompileDeb u None, ChildError (length (children st))]) =
            uncaught st @ [length (children st)])
   \<and> (i < length (pendingWrites st) \<and> pendingWrites st ! i = Some pw \<longrightarrow>
      sent (run env st [WriteFileDone i Written None, ChildError (length (children st))]) = sent st
      \<and> activeProcesses (run env st [WriteFileDone i Written None, ChildError (length (children st))])
            (processKey Patch (pw_identifier pw)) = Some (length (children st))
      \<and> uncaught (run env st [WriteFileDone i Written None, ChildError (length (children st))]) =
            uncaught st @ [length (children st)])
   \<and> (activeProcesses st key \<noteq> None \<and> \<not> is_close ev \<longrightarrow>
        activeProcesses (step env st ev) key \<noteq> None)"
proof -
  have a: "activeProcesses st (processKey Fetch u) = None \<longrightarrow>
      sent (run env st [FetchGithubReleases u None, ChildError (length (children st))]) = sent st
      \<and> activeProcesses (run env st [FetchGithubReleases u None, ChildError (length (children st))])
            (processKey Fetch u) = Some (length (children st))
      \<and> uncaught (run env st [FetchGithubReleases u None, ChildError (length (children st))]) =
            uncaught st @ [length (children st)]"
    by (simp add: run_def fetch_admitted child_error_def)
  have b: "activeProcesses st (processKey DownloadConvert u) = None \<longrightarrow>
      sent (run env st [DownloadAndCompileDeb u None, ChildError (length (children st))]) = sent st
      \<and> activeProcesses (run env st [DownloadAndCompileDeb u None, ChildError (length (children st))])
            (processKey DownloadConvert u) = Some (length (children st))
      \<and> uncaught (run env st [DownloadAndCompileDeb u None, ChildError (length (children st))]) =
            uncaught st @ [length (children st)]"
    by (simp add: run_def download_admitted child_error_def)
  have c: "i < length (pendingWrites st) \<and> pendingWrites st ! i = Some pw \<longrightarrow>
      sent (run env st [WriteFileDone i Written None, ChildError (length (children st))]) = sent st
      \<and> activeProcesses (run env st [WriteFileDone i Written None, ChildError (length (children st))])
            (processKey Patch (pw_identifier pw)) = Some (length (children st))
      \<and> uncaught (run env st [WriteFileDone i Written None, ChildError (length (children st))]) =
            uncaught st @ [length (children st)]"
    by (simp add: run_def writeFile_callback_pending writeFile_done_ok child_error_def)
  have d: "activeProcesses st key \<noteq> None \<and> \<not> is_close ev \<longrightarrow>
        activeProcesses (step env st ev) key \<noteq> None"
    using registered_key_stays [of st key ev env] by blast
  from a b c d show ?thesis by blast
qed

theorem launch_failure_unnoticed_witness:
  "activeProcesses staged_request (processKey Fetch (js ''u'')) = None
   \<and> sent (run example_platform staged_request
             [FetchGithubReleases (js ''u'') None, ChildError 0]) = []
   \<and> activeProcesses
         (run example_platform staged_request
            [FetchGithubReleases (js ''u'') None, ChildError 0])
         (processKey Fetch (js ''u'')) = Some 0
   \<and> uncaught (run example_platform staged_request
             [FetchGithubReleases (js ''u'') None, ChildError 0]) = [0]
   \<and> sent (run example_platform staged_request
             [DownloadAndCompileDeb (js ''u'') None, ChildError 0]) = []
   \<and> activeProcesses
         (run example_platform staged_request
            [DownloadAndCompileDeb (js ''u'') None, ChildError 0])
         (processKey DownloadConvert (js ''u'')) = Some 0
   \<and> sent (run example_platform staged_request
             [WriteFileDone 0 Written None, ChildError 0]) = []
   \<and> activeProcesses
         (run example_platform staged_request
            [WriteFileDone 0 Written None, ChildError 0])
         (processKey Patch (js ''u'')) = Some 0
   \<and> uncaught (run example_platform staged_request
             [WriteFileDone 0 Written None, ChildError 0]) = [0]
   \<and> activeProcesses
         (step example_platform three_jobs (StdoutData 0 [10]))
         (processKey Fetch (js ''u'')) \<noteq> None"
proof -
  have pre: "activeProcesses staged_request (processKey Fetch (js ''u'')) = None"
    "activeProcesses staged_request (processKey DownloadConvert (js ''u'')) = None"
    "0 < length (pendingWrites staged_request)"
    "pendingWrites staged_request ! 0 =
       Some \<lparr>pw_path = js ''/tmp/a.ipa'', pw_data = [1, 2, 3], pw_tweakPath = js ''t.tar'',
             pw_identifier = js ''u''\<rparr>"
    by (simp_all add: staged_request_pending staged_request_fields)
  from launch_failure_unnoticed
         [where st = staged_request and u = "js ''u''" and env = example_platform and i = 0
            and pw = "\<lparr>pw_path = js ''/tmp/a.ipa'', pw_data = [1, 2, 3],
                       pw_tweakPath = js ''t.tar'', pw_identifier = js ''u''\<rparr>"]
       pre
  have a: "sent (run example_platform staged_request
             [FetchGithubReleases (js ''u'') None, ChildError 0]) = []"
    "activeProcesses
         (run example_platform staged_request
            [FetchGithubReleases (js ''u'') None, ChildError 0])
         (processKey Fetch (js ''u'')) = Some 0"
    "uncaught (run example_platform staged_request
             [FetchGithubReleases (js ''u'') None, ChildError 0]) = [0]"
    "sent (run example_platform staged_request
             [DownloadAndCompileDeb (js ''u'') None, ChildError 0]) = []"
    "activeProcesses
         (run example_platform staged_request
            [DownloadAndCompileDeb (js ''u'') None, ChildError 0])
         (processKey DownloadConvert (js ''u'')) = Some 0"
    "sent (run example_platform staged_request
             [WriteFileDone 0 Written None, ChildError 0]) = []"
    "activeProcesses
         (run example_platform staged_request
            [WriteFileDone 0 Written None, ChildError 0])
         (processKey Patch (js ''u'')) = Some 0"
    "uncaught (run example_platform staged_request
             [WriteFileDone 0 Written None, ChildError 0]) = [0]"
    by (simp_all add: staged_request_fields)
  from launch_failure_unnoticed
         [where st = three_jobs and key = "processKey Fetch (js ''u'')"
            and ev = "StdoutData 0 [10]" and env = example_platform]
  have b: "activeProcesses
         (step example_platform three_jobs (StdoutData 0 [10]))
         (processKey Fetch (js ''u'')) \<noteq> None"
    by (simp add: three_jobs_registry)
  from pre(1) a b show ?thesis by simp
qed

text \<open>
  C8. When the write of the temporary file fails for an admitted patch request
  (whatever the failed write left on disk), the consumer receives one \<^verbatim>\<open>operation\<close> message with status \<^verbatim>\<open>failed\<close> that carries
  the request's identifier, and no process is spawned: no call of \<^verbatim>\<open>spawn\<close>, no
  child and no registry entry is added.
\<close>

theorem staging_failure_reported:
  "activeProcesses st (processKey Patch (req_identifier data)) = None \<and>
   req_ipaBuffer data = Some buf \<and> req_tweakPath data = Some tp \<and> tp \<noteq> [] \<longrightarrow>
   sent (run env st [StartPatching data now, WriteFileDone (length (pendingWrites st)) (WriteFailed leftover) pid]) =
     sent st @
     [(BackendMessage,
       JObj [(js ''type'', JStr (js ''operation'')),
             (js ''status'', JStr (js ''failed'')),
             (js ''error'', JStr (js ''Could not save IPA file for patching.'')),
             (js ''identifier'', JStr (req_identifier data))])]
   \<and> spawned (run env st [StartPatching data now, WriteFileDone (length (pendingWrites st)) (WriteFailed leftover) pid]) =
       spawned st
   \<and> children (run env st [StartPatching data now, WriteFileDone (length (pendingWrites st)) (WriteFailed leftover) pid]) =
       children st
   \<and> activeProcesses (run env st [StartPatching data now, WriteFileDone (length (pendingWrites st)) (WriteFailed leftover) pid]) =
       activeProcesses st"
  by (simp add: run_def start_patching_def writeFile_callback_def writeFile_done_def
        operation_failed_def send_def log_def nth_append)

theorem staging_failure_reported_witness:
  "sent (run example_platform init_state
           [StartPatching \<lparr>req_ipaBuffer = Some [1, 2, 3], req_tweakPath = Some (js ''t.tar''),
                           req_identifier = js ''u'', req_ipaName = Some (js ''a.ipa'')\<rparr> 5,
            WriteFileDone 0 (WriteFailed (Some [1])) None]) =
     [(BackendMessage,
       JObj [(js ''type'', JStr (js ''operation'')),
             (js ''status'', JStr (js ''failed'')),
             (js ''error'', JStr (js ''Could not save IPA file for patching.'')),
             (js ''identifier'', JStr (js ''u''))])]
   \<and> spawned (run example_platform init_state
           [StartPatching \<lparr>req_ipaBuffer = Some [1, 2, 3], req_tweakPath = Some (js ''t.tar''),
                           req_identifier = js ''u'', req_ipaName = Some (js ''a.ipa'')\<rparr> 5,
            WriteFileDone 0 (WriteFailed (Some [1])) None]) = []"
proof -
  have pre: "activeProcesses init_state (processKey Patch (js ''u'')) = None"
     "js ''t.tar'' \<noteq> []" "length (pendingWrites init_state) = 0"
     "sent init_state = []" "spawned init_state = []"
    by (simp_all add: init_state_def js_def)
  from staging_failure_reported
         [of init_state
             "\<lparr>req_ipaBuffer = Some [1, 2, 3], req_tweakPath = Some (js ''t.tar''),
               req_identifier = js ''u'', req_ipaName = Some (js ''a.ipa'')\<rparr>"
             "[1, 2, 3]" "js ''t.tar''" example_platform 5 "Some [1]" None]
       pre
  show ?thesis by simp
qed

subsection \<open>More about single steps\<close>

lemma close_job_fields:
  "children (close_job j code ok st) = children st"
  "spawned (close_job j code ok st) = spawned st"
  "pendingWrites (close_job j code ok st) = pendingWrites st"
  by (cases j; simp add: send_def log_def registry_delete_def unlink_def)+

lemma run_two: "run env st [e1, e2] = step env (step env st e1) e2"
  by (simp add: run_def)

lemma stdout_data_job:
  "h < length (children st) \<Longrightarrow>
   ch_job (children (stdout_data env h d st) ! h) = ch_job (children st ! h)"
  by (simp add: stdout_data_children)

lemma stdout_data_length: "length (children (stdout_data env h d st)) = length (children st)"
  by (cases "h < length (children st)") (simp_all add: stdout_data_children, simp add: stdout_data_def)

lemma writeFile_done_failed:
  "writeFile_done env pw (WriteFailed leftover) pid st =
     st\<lparr>files := after_write (pw_path pw) (pw_data pw) (WriteFailed leftover) (files st),
        sent := sent st @
            [(BackendMessage,
              operation_failed (js ''Could not save IPA file for patching.'') (pw_identifier pw))],
        console := console st @ [ErrWriteTemp]\<rparr>"
  by (simp add: writeFile_done_def send_def log_def)

lemma patch_running_fields:
  "children patch_running = [\<lparr>ch_job = PatchJob (js ''u'') (js ''/tmp/a.ipa''), ch_buffer = []\<rparr>]"
  "files patch_running (js ''/tmp/a.ipa'') = Some [1, 2, 3]"
  "unlinked patch_running = []"
  "sent patch_running = []"
  "deleted patch_running = []"
  "activeProcesses patch_running (processKey Patch (js ''u'')) = Some 0"
  by (simp_all add: patch_running_def writeFile_callback_def staged_request_pending
        writeFile_done_ok staged_request_fields)

subsection \<open>Claims about the temporary file\<close>

text \<open>
  C6, as the specification states it, fails on the launch-failure path: the write has
  succeeded, the launch fails, the child emits \<^verbatim>\<open>'error'\<close>, and the staged file is
  still there; no \<^verbatim>\<open>fs.unlink\<close> has been called.
\<close>

theorem temp_file_counterexample:
  "files (run example_platform staged_request [WriteFileDone 0 Written None, ChildError 0])
     (js ''/tmp/a.ipa'') = Some [1, 2, 3]
   \<and> unlinked (run example_platform staged_request [WriteFileDone 0 Written None, ChildError 0]) = []"
  by (simp add: run_def writeFile_callback_def staged_request_pending writeFile_done_ok
        staged_request_fields child_error_def)

text \<open>
  C6, amended. The staged file is released by the close listener. For
  a patch child that emits \<^verbatim>\<open>close\<close>, whatever the exit code, the listener calls
  \<^verbatim>\<open>fs.unlink\<close> on the staged path once; the file is gone afterwards when the
  unlink succeeds, and the files are as before (the error is only logged) when it
  fails. When staging fails, the callback neither spawns nor unlinks: the files are
  as before when the failed write had not opened the file, and a file that the failed
  write created or truncated stays at the staged path. When the launch fails, the
  file stays as written and nothing is unlinked.
\<close>

theorem temp_file_released_on_close:
  "(h < length (children st) \<and> ch_job (children st ! h) = PatchJob ident tempIpaPath \<longrightarrow>
      unlinked (on_close h code unlink_ok st) = unlinked st @ [tempIpaPath]
      \<and> files (on_close h code True st) tempIpaPath = None
      \<and> files (on_close h code False st) = files st)
   \<and> (i < length (pendingWrites st) \<and> pendingWrites st ! i = Some pw \<longrightarrow>
      unlinked (writeFile_callback env i (WriteFailed leftover) pid st) = unlinked st
      \<and> spawned (writeFile_callback env i (WriteFailed leftover) pid st) = spawned st
      \<and> files (writeFile_callback env i (WriteFailed None) pid st) = files st
      \<and> files (writeFile_callback env i (WriteFailed (Some bs)) pid st) (pw_path pw) = Some bs
      \<and> files (run env st [WriteFileDone i Written None, ChildError (length (children st))])
            (pw_path pw) = Some (pw_data pw)
      \<and> unlinked (run env st [WriteFileDone i Written None, ChildError (length (children st))]) =
            unlinked st)"
proof -
  have a: "h < length (children st) \<and> ch_job (children st ! h) = PatchJob ident tempIpaPath \<longrightarrow>
      unlinked (on_close h code unlink_ok st) = unlinked st @ [tempIpaPath]
      \<and> files (on_close h code True st) tempIpaPath = None
      \<and> files (on_close h code False st) = files st"
    by (simp add: on_close_def unlink_def send_def log_def registry_delete_def)
  have b: "i < length (pendingWrites st) \<and> pendingWrites st ! i = Some pw \<longrightarrow>
      unlinked (writeFile_callback env i (WriteFailed leftover) pid st) = unlinked st
      \<and> spawned (writeFile_callback env i (WriteFailed leftover) pid st) = spawned st
      \<and> files (writeFile_callback env i (WriteFailed None) pid st) = files st
      \<and> files (writeFile_callback env i (WriteFailed (Some bs)) pid st) (pw_path pw) = Some bs"
    by (simp add: writeFile_callback_pending writeFile_done_failed)
  have c: "i < length (pendingWrites st) \<and> pendingWrites st ! i = Some pw \<longrightarrow>
      files (run env st [WriteFileDone i Written None, ChildError (length (children st))])
            (pw_path pw) = Some (pw_data pw)
      \<and> unlinked (run env st [WriteFileDone i Written None, ChildError (length (children st))]) =
            unlinked st"
    by (simp add: run_def writeFile_callback_pending writeFile_done_ok child_error_def)
  from a b c show ?thesis by blast
qed

theorem temp_file_released_on_close_witness:
  "unlinked (on_close 0 (Some 1) True patch_running) = [js ''/tmp/a.ipa'']
   \<and> files (on_close 0 (Some 1) True patch_running) (js ''/tmp/a.ipa'') = None
   \<and> files (on_close 0 (Some 1) False patch_running) (js ''/tmp/a.ipa'') = Some [1, 2, 3]
   \<and> unlinked (writeFile_callback example_platform 0 (WriteFailed (Some [1])) None
                 staged_request) = []
   \<and> spawned (writeFile_callback example_platform 0 (WriteFailed (Some [1])) None
                staged_request) = []
   \<and> files (writeFile_callback example_platform 0 (WriteFailed None) None staged_request) =
       Map.empty
   \<and> files (writeFile_callback example_platform 0 (WriteFailed (Some [1])) None staged_request)
         (js ''/tmp/a.ipa'') = Some [1]
   \<and> files (run example_platform staged_request [WriteFileDone 0 Written None, ChildError 0])
         (js ''/tmp/a.ipa'') = Some [1, 2, 3]"
proof -
  have a: "0 < length (children patch_running) \<and>
           ch_job (children patch_running ! 0) = PatchJob (js ''u'') (js ''/tmp/a.ipa'')"
    by (simp add: patch_running_fields)
  have b: "0 < length (pendingWrites staged_request) \<and>
           pendingWrites staged_request ! 0 =
             Some \<lparr>pw_path = js ''/tmp/a.ipa'', pw_data = [1, 2, 3],
                   pw_tweakPath = js ''t.tar'', pw_identifier = js ''u''\<rparr>"
    by (simp add: staged_request_pending)
  from temp_file_released_on_close
         [where h = 0 and st = patch_running and ident = "js ''u''"
            and tempIpaPath = "js ''/tmp/a.ipa''" and code = "Some 1" and unlink_ok = True]
       a
  have c: "unlinked (on_close 0 (Some 1) True patch_running) = [js ''/tmp/a.ipa'']"
     "files (on_close 0 (Some 1) True patch_running) (js ''/tmp/a.ipa'') = None"
     "files (on_close 0 (Some 1) False patch_running) (js ''/tmp/a.ipa'') = Some [1, 2, 3]"
    by (simp_all add: patch_running_fields)
  from temp_file_released_on_close
         [where st = staged_request and i = 0 and env = example_platform and pid = None
            and leftover = "Some [1]" and bs = "[1]"
            and pw = "\<lparr>pw_path = js ''/tmp/a.ipa'', pw_data = [1, 2, 3],
                       pw_tweakPath = js ''t.tar'', pw_identifier = js ''u''\<rparr>"]
       b
  have d: "unlinked (writeFile_callback example_platform 0 (WriteFailed (Some [1])) None
                 staged_request) = []"
     "spawned (writeFile_callback example_platform 0 (WriteFailed (Some [1])) None
                staged_request) = []"
     "files (writeFile_callback example_platform 0 (WriteFailed None) None staged_request) =
       Map.empty"
     "files (writeFile_callback example_platform 0 (WriteFailed (Some [1])) None staged_request)
         (js ''/tmp/a.ipa'') = Some [1]"
     "files (run example_platform staged_request [WriteFileDone 0 Written None, ChildError 0])
         (js ''/tmp/a.ipa'') = Some [1, 2, 3]"
    by (simp_all add: staged_request_fields)
  from c d show ?thesis by simp
qed

subsection \<open>The close listeners, step by step\<close>

lemma download_running_fields:
  "children download_running = [\<lparr>ch_job = DownloadJob (js ''u''), ch_buffer = []\<rparr>]"
  "sent download_running = []"
  "deleted download_running = []"
  "activeProcesses download_running (processKey DownloadConvert (js ''u'')) = Some 0"
  by (simp_all add: download_running_def download_admitted init_state_def)

lemma operation_line:
  \<open>nonempty_lines (toString (ascii ''{"type":"operation","status":"completed"}\<newline>'')) =
     [js ''{"type":"operation","status":"completed"}'']\<close>
  by (simp add: toString_ascii) (simp add: nonempty_lines_def js_def NL_def)

lemma operation_parse:
  \<open>download_try example_platform (js ''{"type":"operation","status":"completed"}'') =
     Sends BackendMessage
       (JObj [(js ''type'', JStr (js ''operation'')), (js ''status'', JStr (js ''completed''))])\<close>
  by (simp add: download_try_def example_platform_def example_parse_def js_def)

lemma close_download:
  "h < length (children st) \<Longrightarrow> ch_job (children st ! h) = DownloadJob u \<Longrightarrow>
   on_close h code ok st =
     st\<lparr>console := console st @ [LogExit DownloadConvert u code],
        activeProcesses := (activeProcesses st)(processKey DownloadConvert u := None),
        deleted := deleted st @ [processKey DownloadConvert u],
        sent := sent st @ [(BackendMessage, process_exit_message (js ''download_url'') u code)]\<rparr>"
  by (simp add: on_close_def send_def log_def registry_delete_def)

lemma close_patch_fields:
  assumes "h < length (children st)" "ch_job (children st ! h) = PatchJob ident p"
  shows "sent (on_close h code ok st) =
           sent st @ [(BackendMessage, process_exit_message (js ''identifier'') ident code)]"
    and "deleted (on_close h code ok st) = deleted st @ [processKey Patch ident]"
    and "activeProcesses (on_close h code ok st) =
           (activeProcesses st)(processKey Patch ident := None)"
  using assms by (simp_all add: on_close_def send_def log_def registry_delete_def unlink_def)

lemma close_fetch:
  "h < length (children st) \<Longrightarrow> ch_job (children st ! h) = FetchJob u \<Longrightarrow>
   on_close h code ok st =
     st\<lparr>console := console st @ [LogExit Fetch u code],
        activeProcesses := (activeProcesses st)(processKey Fetch u := None),
        deleted := deleted st @ [processKey Fetch u]\<rparr>"
  by (simp add: on_close_def log_def registry_delete_def)

lemma patch_operation_parse:
  \<open>patch_try example_platform (js ''u'') (js ''{"type":"operation","status":"completed"}'') =
     Sends BackendMessage
       (JObj [(js ''type'', JStr (js ''operation'')), (js ''status'', JStr (js ''completed'')),
              (js ''identifier'', JStr (js ''u''))])\<close>
  by (simp add: patch_try_def example_platform_def example_parse_def js_def)

subsection \<open>Claims about terminal dispatches\<close>

text \<open>
  C4, as the specification states it, fails: a download worker writes an operation
  result with status completed and then exits with code 0, and the consumer receives
  two terminal dispatches, the forwarded operation result and the synthesized
  \<^verbatim>\<open>process_exit\<close>.
\<close>

theorem two_terminal_dispatches_counterexample:
  \<open>map snd (sent (run example_platform download_running
       [StdoutData 0 (ascii ''{"type":"operation","status":"completed"}\<newline>''),
        ChildClose 0 (Some 0) True])) =
     [JObj [(js ''type'', JStr (js ''operation'')), (js ''status'', JStr (js ''completed''))],
      JObj [(js ''type'', JStr (js ''process_exit'')), (js ''status'', JStr (js ''completed'')),
            (js ''download_url'', JStr (js ''u'')), (js ''code'', JNum 0)]]
   \<and> length (filter is_terminal (map snd (sent (run example_platform download_running
       [StdoutData 0 (ascii ''{"type":"operation","status":"completed"}\<newline>''),
        ChildClose 0 (Some 0) True])))) = 2\<close>
proof -
  let ?d = \<open>ascii ''{"type":"operation","status":"completed"}\<newline>''\<close>
  let ?st1 = "stdout_data example_platform 0 ?d download_running"
  have h: "0 < length (children download_running)"
    by (simp add: download_running_fields)
  have s1: \<open>sent ?st1 =
      [(BackendMessage,
        JObj [(js ''type'', JStr (js ''operation'')), (js ''status'', JStr (js ''completed''))])]\<close>
    by (simp add: stdout_data_sent [OF h] download_running_fields operation_line operation_parse)
  have j1: "0 < length (children ?st1)" "ch_job (children ?st1 ! 0) = DownloadJob (js ''u'')"
    using h by (simp_all add: stdout_data_length stdout_data_job download_running_fields)
  have s2: \<open>sent (on_close 0 (Some 0) True ?st1) =
      sent ?st1 @ [(BackendMessage, process_exit_message (js ''download_url'') (js ''u'') (Some 0))]\<close>
    by (simp add: close_download [OF j1])
  have t: "is_terminal (JObj [(js ''type'', JStr (js ''operation'')), (js ''status'', JStr (js ''completed''))])"
     "is_terminal (process_exit_message (js ''download_url'') (js ''u'') (Some 0))"
    by (simp_all add: is_terminal_def process_exit_message_def js_def)
  have m: "process_exit_message (js ''download_url'') (js ''u'') (Some 0) =
      JObj [(js ''type'', JStr (js ''process_exit'')), (js ''status'', JStr (js ''completed'')),
            (js ''download_url'', JStr (js ''u'')), (js ''code'', JNum 0)]"
    by (simp add: process_exit_message_def exit_status_def code_val_def)
  show ?thesis
    unfolding run_two step.simps s2 s1 using t by (simp add: m)
qed

text \<open>
  C4, amended. For a download or patch child, the close listener sends its
  \<^verbatim>\<open>process_exit\<close> message after whatever the stdout listener forwarded, whether or
  not an operation result was among it: when both terminal conditions fire the
  consumer receives both dispatches, the \<^verbatim>\<open>process_exit\<close> last. The registry
  release for the key is invoked once, by the close listener; decoding a message
  releases nothing.
\<close>

theorem close_always_dispatches_exit:
  "(h < length (children st) \<and> ch_job (children st ! h) = DownloadJob u \<longrightarrow>
      sent (run env st [StdoutData h d, ChildClose h code ok]) =
        sent st
        @ concat (map (\<lambda>l. sent_by (download_try env l))
                    (nonempty_lines (ch_buffer (children st ! h) @ toString d)))
        @ [(BackendMessage, process_exit_message (js ''download_url'') u code)]
      \<and> deleted (step env st (StdoutData h d)) = deleted st
      \<and> activeProcesses (step env st (StdoutData h d)) = activeProcesses st
      \<and> deleted (run env st [StdoutData h d, ChildClose h code ok]) =
          deleted st @ [processKey DownloadConvert u]
      \<and> activeProcesses (run env st [StdoutData h d, ChildClose h code ok]) =
          (activeProcesses st)(processKey DownloadConvert u := None))
   \<and> (h < length (children st) \<and> ch_job (children st ! h) = PatchJob ident p \<longrightarrow>
      sent (run env st [StdoutData h d, ChildClose h code ok]) =
        sent st
        @ concat (map (\<lambda>l. sent_by (patch_try env ident l))
                    (nonempty_lines (ch_buffer (children st ! h) @ toString d)))
        @ [(BackendMessage, process_exit_message (js ''identifier'') ident code)]
      \<and> deleted (step env st (StdoutData h d)) = deleted st
      \<and> activeProcesses (step env st (StdoutData h d)) = activeProcesses st
      \<and> deleted (run env st [StdoutData h d, ChildClose h code ok]) =
          deleted st @ [processKey Patch ident]
      \<and> activeProcesses (run env st [StdoutData h d, ChildClose h code ok]) =
          (activeProcesses st)(processKey Patch ident := None))
   \<and> is_terminal (process_exit_message (js ''download_url'') u code)
   \<and> is_terminal (process_exit_message (js ''identifier'') ident code)"
proof -
  have t: "is_terminal (process_exit_message (js ''download_url'') u code)"
     "is_terminal (process_exit_message (js ''identifier'') ident code)"
    by (simp_all add: is_terminal_def process_exit_message_def js_def)
  have a: "h < length (children st) \<and> ch_job (children st ! h) = DownloadJob u \<longrightarrow>
      sent (run env st [StdoutData h d, ChildClose h code ok]) =
        sent st
        @ concat (map (\<lambda>l. sent_by (download_try env l))
                    (nonempty_lines (ch_buffer (children st ! h) @ toString d)))
        @ [(BackendMessage, process_exit_message (js ''download_url'') u code)]
      \<and> deleted (run env st [StdoutData h d, ChildClose h code ok]) =
          deleted st @ [processKey DownloadConvert u]
      \<and> activeProcesses (run env st [StdoutData h d, ChildClose h code ok]) =
          (activeProcesses st)(processKey DownloadConvert u := None)"
    by (simp add: run_two close_download stdout_data_length stdout_data_job stdout_data_sent
          stdout_data_rest)
  have b: "h < length (children st) \<and> ch_job (children st ! h) = PatchJob ident p \<longrightarrow>
      sent (run env st [StdoutData h d, ChildClose h code ok]) =
        sent st
        @ concat (map (\<lambda>l. sent_by (patch_try env ident l))
                    (nonempty_lines (ch_buffer (children st ! h) @ toString d)))
        @ [(BackendMessage, process_exit_message (js ''identifier'') ident code)]
      \<and> deleted (run env st [StdoutData h d, ChildClose h code ok]) =
          deleted st @ [processKey Patch ident]
      \<and> activeProcesses (run env st [StdoutData h d, ChildClose h code ok]) =
          (activeProcesses st)(processKey Patch ident := None)"
    by (simp add: run_two close_patch_fields stdout_data_length stdout_data_job stdout_data_sent
          stdout_data_rest)
  have c: "deleted (step env st (StdoutData h d)) = deleted st"
      "activeProcesses (step env st (StdoutData h d)) = activeProcesses st"
    by (simp_all add: stdout_data_rest)
  from t a b c show ?thesis by blast
qed

theorem close_always_dispatches_exit_witness:
  \<open>sent (run example_platform download_running
       [StdoutData 0 (ascii ''{"type":"operation","status":"completed"}\<newline>''),
        ChildClose 0 (Some 0) True]) =
     [(BackendMessage,
       JObj [(js ''type'', JStr (js ''operation'')), (js ''status'', JStr (js ''completed''))]),
      (BackendMessage, process_exit_message (js ''download_url'') (js ''u'') (Some 0))]
   \<and> deleted (run example_platform download_running
       [StdoutData 0 (ascii ''{"type":"operation","status":"completed"}\<newline>''),
        ChildClose 0 (Some 0) True]) = [processKey DownloadConvert (js ''u'')]
   \<and> activeProcesses (run example_platform download_running
       [StdoutData 0 (ascii ''{"type":"operation","status":"completed"}\<newline>''),
        ChildClose 0 (Some 0) True]) (processKey DownloadConvert (js ''u'')) = None
   \<and> sent (run example_platform patch_running
       [StdoutData 0 (ascii ''{"type":"operation","status":"completed"}\<newline>''),
        ChildClose 0 (Some 0) True]) =
     [(BackendMessage,
       JObj [(js ''type'', JStr (js ''operation'')), (js ''status'', JStr (js ''completed'')),
             (js ''identifier'', JStr (js ''u''))]),
      (BackendMessage, process_exit_message (js ''identifier'') (js ''u'') (Some 0))]
   \<and> deleted (run example_platform patch_running
       [StdoutData 0 (ascii ''{"type":"operation","status":"completed"}\<newline>''),
        ChildClose 0 (Some 0) True]) = [processKey Patch (js ''u'')]\<close>
proof -
  let ?d = \<open>ascii ''{"type":"operation","status":"completed"}\<newline>''\<close>
  have a: "0 < length (children download_running) \<and>
           ch_job (children download_running ! 0) = DownloadJob (js ''u'')"
    by (simp add: download_running_fields)
  have b: "0 < length (children patch_running) \<and>
           ch_job (children patch_running ! 0) = PatchJob (js ''u'') (js ''/tmp/a.ipa'')"
    by (simp add: patch_running_fields)
  from close_always_dispatches_exit
         [where h = 0 and st = download_running and u = "js ''u''" and env = example_platform
            and d = ?d and code = "Some 0" and ok = True]
       a
  have c: "sent (run example_platform download_running [StdoutData 0 ?d, ChildClose 0 (Some 0) True]) =
     [(BackendMessage,
       JObj [(js ''type'', JStr (js ''operation'')), (js ''status'', JStr (js ''completed''))]),
      (BackendMessage, process_exit_message (js ''download_url'') (js ''u'') (Some 0))]"
    "deleted (run example_platform download_running [StdoutData 0 ?d, ChildClose 0 (Some 0) True]) =
       [processKey DownloadConvert (js ''u'')]"
    "activeProcesses (run example_platform download_running
       [StdoutData 0 ?d, ChildClose 0 (Some 0) True]) (processKey DownloadConvert (js ''u'')) = None"
    by (simp_all add: download_running_fields operation_line operation_parse)
  from close_always_dispatches_exit
         [where h = 0 and st = patch_running and ident = "js ''u''" and p = "js ''/tmp/a.ipa''"
            and env = example_platform and d = ?d and code = "Some 0" and ok = True]
       b
  have e: "sent (run example_platform patch_running [StdoutData 0 ?d, ChildClose 0 (Some 0) True]) =
     [(BackendMessage,
       JObj [(js ''type'', JStr (js ''operation'')), (js ''status'', JStr (js ''completed'')),
             (js ''identifier'', JStr (js ''u''))]),
      (BackendMessage, process_exit_message (js ''identifier'') (js ''u'') (Some 0))]"
    "deleted (run example_platform patch_running [StdoutData 0 ?d, ChildClose 0 (Some 0) True]) =
       [processKey Patch (js ''u'')]"
    by (simp_all add: patch_running_fields operation_line patch_operation_parse)
  from c e show ?thesis by simp
qed

text \<open>
  C5, as the specification states it, fails for fetch jobs: a fetch worker that exits
  with code 1 without having written anything leaves the consumer with no message.
\<close>

theorem fetch_exit_counterexample:
  "sent (run example_platform init_state
           [FetchGithubReleases (js ''u'') (Some 4711), ChildClose 0 (Some 1) True]) = []"
  by (simp add: run_def init_state_def fetch_admitted close_fetch)

text \<open>
  C5, amended to download and patch jobs. When the child of a download or patch job
  closes, one \<^verbatim>\<open>process_exit\<close> message is dispatched to the consumer, with status
  \<^verbatim>\<open>completed\<close> exactly when the exit code is zero and \<^verbatim>\<open>failed\<close> otherwise (also
  when a signal ended the child and there is no code).
\<close>

theorem process_exit_on_close:
  "(h < length (children st) \<and> ch_job (children st ! h) = DownloadJob u \<longrightarrow>
      sent (on_close h code ok st) =
        sent st @ [(BackendMessage, process_exit_message (js ''download_url'') u code)])
   \<and> (h < length (children st) \<and> ch_job (children st ! h) = PatchJob ident p \<longrightarrow>
      sent (on_close h code ok st) =
        sent st @ [(BackendMessage, process_exit_message (js ''identifier'') ident code)])
   \<and> get_prop (process_exit_message field arg code) (js ''type'') = JStr (js ''process_exit'')
   \<and> (get_prop (process_exit_message field arg code) (js ''status'') = JStr (js ''completed'')
        \<longleftrightarrow> code = Some 0)
   \<and> (get_prop (process_exit_message field arg code) (js ''status'') = JStr (js ''failed'')
        \<longleftrightarrow> code \<noteq> Some 0)"
  by (simp add: close_download close_patch_fields process_exit_message_def exit_status_def js_def)

theorem process_exit_on_close_witness:
  "sent (on_close 0 (Some 1) True download_running) =
     [(BackendMessage,
       JObj [(js ''type'', JStr (js ''process_exit'')), (js ''status'', JStr (js ''failed'')),
             (js ''download_url'', JStr (js ''u'')), (js ''code'', JNum 1)])]
   \<and> sent (on_close 0 None True patch_running) =
     [(BackendMessage,
       JObj [(js ''type'', JStr (js ''process_exit'')), (js ''status'', JStr (js ''failed'')),
             (js ''identifier'', JStr (js ''u'')), (js ''code'', JNull)])]
   \<and> sent (on_close 0 (Some 0) True patch_running) =
     [(BackendMessage,
       JObj [(js ''type'', JStr (js ''process_exit'')), (js ''status'', JStr (js ''completed'')),
             (js ''identifier'', JStr (js ''u'')), (js ''code'', JNum 0)])]"
proof -
  have a: "0 < length (children download_running) \<and>
           ch_job (children download_running ! 0) = DownloadJob (js ''u'')"
    by (simp add: download_running_fields)
  have b: "0 < length (children patch_running) \<and>
           ch_job (children patch_running ! 0) = PatchJob (js ''u'') (js ''/tmp/a.ipa'')"
    by (simp add: patch_running_fields)
  from process_exit_on_close
         [where h = 0 and st = download_running and u = "js ''u''" and code = "Some 1"
            and ok = True] a
  have c: "sent (on_close 0 (Some 1) True download_running) =
     [(BackendMessage,
       JObj [(js ''type'', JStr (js ''process_exit'')), (js ''status'', JStr (js ''failed'')),
             (js ''download_url'', JStr (js ''u'')), (js ''code'', JNum 1)])]"
    by (simp add: download_running_fields process_exit_message_def exit_status_def code_val_def)
  from process_exit_on_close
         [where h = 0 and st = patch_running and ident = "js ''u''" and p = "js ''/tmp/a.ipa''"
            and code = None and ok = True] b
  have d: "sent (on_close 0 None True patch_running) =
     [(BackendMessage,
       JObj [(js ''type'', JStr (js ''process_exit'')), (js ''status'', JStr (js ''failed'')),
             (js ''identifier'', JStr (js ''u'')), (js ''code'', JNull)])]"
    by (simp add: patch_running_fields process_exit_message_def exit_status_def code_val_def)
  from process_exit_on_close
         [where h = 0 and st = patch_running and ident = "js ''u''" and p = "js ''/tmp/a.ipa''"
            and code = "Some 0" and ok = True] b
  have e: "sent (on_close 0 (Some 0) True patch_running) =
     [(BackendMessage,
       JObj [(js ''type'', JStr (js ''process_exit'')), (js ''status'', JStr (js ''completed'')),
             (js ''identifier'', JStr (js ''u'')), (js ''code'', JNum 0)])]"
    by (simp add: patch_running_fields process_exit_message_def exit_status_def code_val_def)
  from c d e show ?thesis by simp
qed

subsection \<open>Claims about the routing identifier\<close>

lemma identifier_line:
  \<open>nonempty_lines (toString (ascii ''{"identifier":"x","status":"patching"}\<newline>'')) =
     [js ''{"identifier":"x","status":"patching"}'']\<close>
  by (simp add: toString_ascii) (simp add: nonempty_lines_def js_def NL_def)

lemma identifier_parse:
  \<open>JSON_parse example_platform (js ''{"identifier":"x","status":"patching"}'') =
     Some (JObj [(js ''identifier'', JStr (js ''x'')), (js ''status'', JStr (js ''patching''))])\<close>
  by (simp add: example_platform_def example_parse_def js_def)

text \<open>
  C9, as the specification states it, fails in the patch listener: a worker message
  that carries its own identifier \<^verbatim>\<open>x\<close> is dispatched by the patch job \<^verbatim>\<open>u\<close> with
  identifier \<^verbatim>\<open>u\<close>.
\<close>

theorem identifier_overwritten_counterexample:
  \<open>JSON_parse example_platform (js ''{"identifier":"x","status":"patching"}'') =
     Some (JObj [(js ''identifier'', JStr (js ''x'')), (js ''status'', JStr (js ''patching''))])
   \<and> sent (step example_platform patch_running
             (StdoutData 0 (ascii ''{"identifier":"x","status":"patching"}\<newline>''))) =
     [(BackendMessage,
       JObj [(js ''identifier'', JStr (js ''u'')), (js ''status'', JStr (js ''patching''))])]\<close>
proof -
  have h: "0 < length (children patch_running)"
    by (simp add: patch_running_fields)
  show ?thesis
    by (simp add: stdout_data_sent [OF h] patch_running_fields identifier_line identifier_parse
          patch_try_def)
qed

text \<open>
  C9, amended. The patch listener dispatches every decoded object with its
  \<^verbatim>\<open>identifier\<close> set to the job's identifier, whether or not the message carried
  one. The download listener dispatches the message as decoded. The consumer's
  listener routes a message by its \<^verbatim>\<open>identifier\<close> when that is truthy and by its
  \<^verbatim>\<open>download_url\<close> otherwise.
\<close>

theorem identifier_routing:
  "(JSON_parse env l = Some (JObj ps) \<longrightarrow>
      patch_try env ident l =
        Sends BackendMessage (JObj (AList.update (js ''identifier'') (JStr ident) ps))
      \<and> get_prop (JObj (AList.update (js ''identifier'') (JStr ident) ps)) (js ''identifier'') =
          JStr ident)
   \<and> (JSON_parse env l = Some m \<longrightarrow> download_try env l = Sends BackendMessage m)
   \<and> (\<not> throws_on_access data \<longrightarrow>
        routing_identifier data =
          Some (if truthy (get_prop data (js ''identifier''))
                then get_prop data (js ''identifier'')
                else get_prop data (js ''download_url'')))"
  by (simp add: patch_try_def download_try_def routing_identifier_def js_or_def update_conv')

theorem identifier_routing_witness:
  \<open>patch_try example_platform (js ''u'') (js ''{"identifier":"x","status":"patching"}'') =
     Sends BackendMessage
       (JObj [(js ''identifier'', JStr (js ''u'')), (js ''status'', JStr (js ''patching''))])
   \<and> download_try example_platform (js ''{"identifier":"x","status":"patching"}'') =
     Sends BackendMessage
       (JObj [(js ''identifier'', JStr (js ''x'')), (js ''status'', JStr (js ''patching''))])
   \<and> routing_identifier
       (JObj [(js ''identifier'', JStr (js ''x'')), (js ''download_url'', JStr (js ''v''))]) =
     Some (JStr (js ''x''))
   \<and> routing_identifier (process_exit_message (js ''download_url'') (js ''u'') (Some 0)) =
     Some (JStr (js ''u''))\<close>
proof -
  from identifier_routing
         [where env = example_platform and l = \<open>js ''{"identifier":"x","status":"patching"}''\<close>
            and ps = "[(js ''identifier'', JStr (js ''x'')), (js ''status'', JStr (js ''patching''))]"
            and m = "JObj [(js ''identifier'', JStr (js ''x'')), (js ''status'', JStr (js ''patching''))]"
            and ident = "js ''u''"
            and data = "JObj [(js ''identifier'', JStr (js ''x'')), (js ''download_url'', JStr (js ''v''))]"]
       identifier_parse
  have a: \<open>patch_try example_platform (js ''u'') (js ''{"identifier":"x","status":"patching"}'') =
     Sends BackendMessage
       (JObj [(js ''identifier'', JStr (js ''u'')), (js ''status'', JStr (js ''patching''))])\<close>
     \<open>download_try example_platform (js ''{"identifier":"x","status":"patching"}'') =
     Sends BackendMessage
       (JObj [(js ''identifier'', JStr (js ''x'')), (js ''status'', JStr (js ''patching''))])\<close>
     "routing_identifier
       (JObj [(js ''identifier'', JStr (js ''x'')), (js ''download_url'', JStr (js ''v''))]) =
     Some (JStr (js ''x''))"
    by (simp_all add: js_def)
  from identifier_routing
         [where data = "process_exit_message (js ''download_url'') (js ''u'') (Some 0)"]
  have b: "routing_identifier (process_exit_message (js ''download_url'') (js ''u'') (Some 0)) =
     Some (JStr (js ''u''))"
    by (simp add: process_exit_message_def js_def)
  from a b show ?thesis by simp
qed

subsection \<open>Chunks\<close>

text \<open>
  Over any sequence of chunks of one child, the stdout listener handles the non-empty
  complete lines of the concatenation of the chunks' decoded texts, in order, and keeps
  the partial segment after the last newline in its buffer. Between two chunks the
  buffer holds no newline.
\<close>

lemma nonempty_lines_append:
  "nonempty_lines (a @ b) = nonempty_lines a @ nonempty_lines (snd (split_nl a) @ b)"
  by (simp add: nonempty_lines_def split_nl_append [of a b])

lemma stdout_data_buffer:
  "h < length (children st) \<Longrightarrow>
   ch_buffer (children (stdout_data env h d st) ! h) =
     snd (split_nl (ch_buffer (children st ! h) @ toString d))"
  by (simp add: stdout_data_children)

lemma split_nl_no_NL: "NL \<notin> set b \<Longrightarrow> split_nl b = ([], b)"
  by (induction b) (auto split: prod.splits list.splits)

lemma stdout_chunks:
  "h < length (children st) \<Longrightarrow> NL \<notin> set (ch_buffer (children st ! h)) \<Longrightarrow>
   sent (run env st (map (StdoutData h) ds)) =
     sent st @ concat (map (\<lambda>l. sent_by (try_line env (ch_job (children st ! h)) l))
                        (nonempty_lines (ch_buffer (children st ! h) @ concat (map toString ds))))
   \<and> ch_buffer (children (run env st (map (StdoutData h) ds)) ! h) =
       snd (split_nl (ch_buffer (children st ! h) @ concat (map toString ds)))"
proof (induction ds arbitrary: st)
  case Nil
  then show ?case
    by (simp add: run_def nonempty_lines_def split_nl_no_NL)
next
  case (Cons d ds)
  let ?st1 = "stdout_data env h d st"
  have h1: "h < length (children ?st1)"
    using Cons.prems by (simp add: stdout_data_length)
  have n1: "NL \<notin> set (ch_buffer (children ?st1 ! h))"
    using Cons.prems split_nl_no_newline [of "ch_buffer (children st ! h) @ toString d"]
    by (simp add: stdout_data_buffer)
  have r: "run env st (map (StdoutData h) (d # ds)) = run env ?st1 (map (StdoutData h) ds)"
    by (simp add: run_def)
  let ?b = "ch_buffer (children st ! h)" and ?rest = "concat (map toString ds)"
  have e1: "nonempty_lines (?b @ toString d @ ?rest) =
              nonempty_lines (?b @ toString d) @
              nonempty_lines (snd (split_nl (?b @ toString d)) @ ?rest)"
    using nonempty_lines_append [of "?b @ toString d" ?rest] by simp
  have e2: "snd (split_nl (?b @ toString d @ ?rest)) =
              snd (split_nl (snd (split_nl (?b @ toString d)) @ ?rest))"
    using split_nl_append [of "?b @ toString d" ?rest] by simp
  from Cons.IH [OF h1 n1] Cons.prems show ?case
    unfolding r
    by (simp add: stdout_data_sent stdout_data_buffer stdout_data_job e1 e2)
qed

lemma line_reassembly_example:
  \<open>sent (run example_platform download_running
           [StdoutData 0 (ascii ''{"a":1}\<newline>{"b"''), StdoutData 0 (ascii '':2}\<newline>'')]) =
     [(BackendMessage, JObj [(js ''a'', JNum 1)]), (BackendMessage, JObj [(js ''b'', JNum 2)])]\<close>
proof -
  have h: "0 < length (children download_running)"
     "NL \<notin> set (ch_buffer (children download_running ! 0))"
    by (simp_all add: download_running_fields)
  have ls: \<open>nonempty_lines (toString (ascii ''{"a":1}\<newline>{"b"'') @ toString (ascii '':2}\<newline>'')) =
     [js ''{"a":1}'', js ''{"b":2}'']\<close>
    by (simp add: toString_ascii) (simp add: nonempty_lines_def js_def NL_def)
  have p: \<open>download_try example_platform (js ''{"a":1}'') =
             Sends BackendMessage (JObj [(js ''a'', JNum 1)])\<close>
     \<open>download_try example_platform (js ''{"b":2}'') =
             Sends BackendMessage (JObj [(js ''b'', JNum 2)])\<close>
    by (simp_all add: download_try_def example_platform_def example_parse_def js_def)
  from stdout_chunks [OF h, of example_platform
         \<open>[ascii ''{"a":1}\<newline>{"b"'', ascii '':2}\<newline>'']\<close>]
  show ?thesis
    by (simp add: download_running_fields ls p)
qed

text \<open>
  C2. Each chunk is decoded on its own (\<^verbatim>\<open>data.toString()\<close>), so the text whose
  lines are read is the concatenation of the decoded chunks, not the decoding of the
  concatenated bytes. The two agree when every chunk ends between characters
  (\<open>line_reassembly_example\<close> is the specification's own example). They differ when
  a chunk ends inside a multi-byte character: the line
  \<^verbatim>\<open>{"a":"\<close>\<open>\<dots>\<close>\<^verbatim>\<open>"}\<close> with the two-byte character U+00E9 between the quotes reaches
  \<^verbatim>\<open>JSON.parse\<close> with two U+FFFD in its place when the chunk boundary falls between
  the character's bytes, and with U+00E9 when it arrives in one chunk.
\<close>

theorem multibyte_split_garbled:
  \<open>sent (run example_platform download_running
           [StdoutData 0 (ascii ''{"a":"'' @ [0xC3]), StdoutData 0 (0xA9 # ascii ''"}\<newline>'')]) =
     [(BackendMessage, JObj [(js ''a'', JStr [0xFFFD, 0xFFFD])])]
   \<and> sent (run example_platform download_running
           [StdoutData 0 (ascii ''{"a":"'' @ 0xC3 # 0xA9 # ascii ''"}\<newline>'')]) =
     [(BackendMessage, JObj [(js ''a'', JStr [0xE9])])]\<close>
proof -
  have h: "0 < length (children download_running)"
     "NL \<notin> set (ch_buffer (children download_running ! 0))"
    by (simp_all add: download_running_fields)
  have l1: \<open>nonempty_lines (toString (ascii ''{"a":"'' @ [0xC3]) @ toString (0xA9 # ascii ''"}\<newline>'')) =
             [js ''{"a":"'' @ 0xFFFD # 0xFFFD # js ''"}'']\<close>
    by (simp add: toString_def ascii_def utf8_lead_def utf16_def nonempty_lines_def js_def NL_def)
  have l2: \<open>nonempty_lines (toString (ascii ''{"a":"'' @ 0xC3 # 0xA9 # ascii ''"}\<newline>'')) =
             [js ''{"a":"'' @ 0xE9 # js ''"}'']\<close>
    by (simp add: toString_def ascii_def utf8_lead_def utf16_def nonempty_lines_def js_def NL_def)
  have p: \<open>download_try example_platform (js ''{"a":"'' @ 0xFFFD # 0xFFFD # js ''"}'') =
             Sends BackendMessage (JObj [(js ''a'', JStr [0xFFFD, 0xFFFD])])\<close>
     \<open>download_try example_platform (js ''{"a":"'' @ 0xE9 # js ''"}'') =
             Sends BackendMessage (JObj [(js ''a'', JStr [0xE9])])\<close>
    by (simp_all add: download_try_def example_platform_def example_parse_def js_def)
  from stdout_chunks [OF h, of example_platform
         \<open>[ascii ''{"a":"'' @ [0xC3], 0xA9 # ascii ''"}\<newline>'']\<close>]
  have a: \<open>sent (run example_platform download_running
           [StdoutData 0 (ascii ''{"a":"'' @ [0xC3]), StdoutData 0 (0xA9 # ascii ''"}\<newline>'')]) =
     [(BackendMessage, JObj [(js ''a'', JStr [0xFFFD, 0xFFFD])])]\<close>
    by (simp add: download_running_fields l1 p)
  from stdout_chunks [OF h, of example_platform
         \<open>[ascii ''{"a":"'' @ 0xC3 # 0xA9 # ascii ''"}\<newline>'']\<close>]
  have b: \<open>sent (run example_platform download_running
           [StdoutData 0 (ascii ''{"a":"'' @ 0xC3 # 0xA9 # ascii ''"}\<newline>'')]) =
     [(BackendMessage, JObj [(js ''a'', JStr [0xE9])])]\<close>
    by (simp add: download_running_fields l2 p)
  from a b show ?thesis by simp
qed

end
